theory Spec2Isabelle
  imports Main "HOL-Library.AList" "HOL-Library.Sublist"
begin

section \<open>The conversion script \<^verbatim>\<open>convert_to_ggml.py\<close>\<close>

text \<open>
  The script turns a fine-tuned Hugging Face Whisper checkpoint into a whisper.cpp binary
  and quantizes it. Everything it does is an effect on the outside world: it reads and
  writes the file system, appends to a log and starts subprocesses. The embedding makes
  that world a value (\<open>world\<close>) which every function takes and returns, also when
  it raises: what was written before an exception stays written. What the outside world
  answers (what a subprocess does, what a model directory holds, whether a download
  succeeds) is a parameter (\<open>env\<close>), so that every theorem holds for every behaviour
  of the tools.
\<close>

subsection \<open>Paths and names (\<^verbatim>\<open>pathlib\<close>)\<close>

text \<open>
  A path is the list of its components, relative to the working directory; \<open>[]\<close> is
  \<^verbatim>\<open>Path('.')\<close>. Two paths are the same file when they are the same list:
  symbolic links, \<^verbatim>\<open>..\<close> and absolute names of relative paths are not modelled.
\<close>

type_synonym path = "string list"

definition pjoin :: "path \<Rightarrow> string \<Rightarrow> path" where
  "pjoin p n = p @ [n]"

definition parent :: "path \<Rightarrow> path" where
  "parent p = butlast p"

definition path_name :: "path \<Rightarrow> string" where
  "path_name p = (if p = [] then [] else last p)"

text \<open>\<^verbatim>\<open>str.rfind\<close>: the index of the last occurrence, \<open>None\<close> for Python's \<open>-1\<close>.\<close>

fun rfind :: "char \<Rightarrow> string \<Rightarrow> nat option" where
  "rfind c [] = None"
| "rfind c (x # xs) =
     (case rfind c xs of
        Some i \<Rightarrow> Some (Suc i)
      | None \<Rightarrow> if x = c then Some 0 else None)"

text \<open>
  \<^verbatim>\<open>PurePath.suffix\<close> of Python 3.12 and earlier:
  \<^verbatim>\<open>i = name.rfind('.'); return name[i:] if 0 < i < len(name) - 1 else ''\<close>.
\<close>

definition path_suffix :: "string \<Rightarrow> string" where
  "path_suffix n =
     (case rfind (CHR ''.'') n of
        None \<Rightarrow> []
      | Some i \<Rightarrow> if 0 < i \<and> i + 1 < length n then drop i n else [])"

text \<open>Python's \<^verbatim>\<open>needle in haystack\<close> on strings: a contiguous substring.\<close>

fun str_in :: "string \<Rightarrow> string \<Rightarrow> bool" where
  "str_in s [] = (s = [])"
| "str_in s (c # cs) = (prefix s (c # cs) \<or> str_in s cs)"

subsection \<open>Exceptions and messages\<close>

text \<open>
  A message is kept as the pieces of its f-string, so no rendering of a path or of an
  exception is invented. The pictographs, bullets and line breaks that open some of the
  script's log lines are left out of the literals. \<open>Tenths n\<close> is a size of \<open>n / 10\<close> MiB printed with one
  decimal.
\<close>

datatype frag = Lit string | Path path | Exn exn | Tenths nat
and exn =
    RuntimeError "frag list"
  | AttributeError string
  | ImportError string
  | FileExistsError path
  | FileNotFoundError path
  | IsADirectoryError path
  | NotADirectoryError path
  | OSError string

fun is_RuntimeError :: "exn \<Rightarrow> bool" where
  "is_RuntimeError (RuntimeError m) = True"
| "is_RuntimeError e = False"

datatype level = INFO | ERROR

subsection \<open>The checkpoint data\<close>

typedecl tensor

type_synonym state_dict = "(string \<times> tensor) list"

text \<open>\<^verbatim>\<open>model.config\<close>: attribute name to value; reading a missing attribute raises.\<close>

type_synonym config = "string \<rightharpoonup> int"

record model =
  config :: config
  state_dict :: state_dict

text \<open>A Python dict with string keys, in insertion order.\<close>

type_synonym dims = "(string \<times> int) list"

text \<open>The dict \<^verbatim>\<open>{"dims": dims, "model_state_dict": model.state_dict()}\<close>.\<close>

type_synonym checkpoint = "dims \<times> state_dict"

subsection \<open>The file system\<close>

text \<open>
  A file holds either a checkpoint pickled by \<^verbatim>\<open>torch.save\<close> or data the model does
  not look into, and has a size in bytes (\<^verbatim>\<open>st_size\<close>). The file system lists its
  entries in the order a directory iteration yields them.
\<close>

datatype fdata = Pickle checkpoint | Opaque

datatype node = Dir | File fdata nat

type_synonym fs = "(path \<times> node) list"

definition node_at :: "fs \<Rightarrow> path \<Rightarrow> node option" where
  "node_at f p = (if p = [] then Some Dir else map_of f p)"

text \<open>\<^verbatim>\<open>Path.exists()\<close>\<close>

definition path_exists :: "fs \<Rightarrow> path \<Rightarrow> bool" where
  "path_exists f p = (node_at f p \<noteq> None)"

text \<open>
  \<^verbatim>\<open>Path.mkdir(parents=True, exist_ok=True)\<close>: every missing directory on the way is
  made; a directory that exists is accepted; a file in the way raises. \<open>mk_from\<close>
  walks the components from the top, \<open>base\<close> being the part already known to be a
  directory.
\<close>

fun mk_from :: "path \<Rightarrow> path \<Rightarrow> string list \<Rightarrow> fs \<Rightarrow> exn + fs" where
  "mk_from target base [] f = Inr f"
| "mk_from target base (c # cs) f =
     (case node_at f (base @ [c]) of
        Some Dir \<Rightarrow> mk_from target (base @ [c]) cs f
      | Some (File d n) \<Rightarrow>
          Inl (if cs = [] then FileExistsError target else NotADirectoryError target)
      | None \<Rightarrow> mk_from target (base @ [c]) cs (f @ [(base @ [c], Dir)]))"

definition mkdir_p :: "path \<Rightarrow> fs \<Rightarrow> exn + fs" where
  "mkdir_p p f = mk_from p [] p f"

text \<open>Writing a whole file (\<^verbatim>\<open>torch.save\<close>, \<^verbatim>\<open>open(..., 'w')\<close>, a download).\<close>

definition write_file :: "path \<Rightarrow> fdata \<Rightarrow> nat \<Rightarrow> fs \<Rightarrow> exn + fs" where
  "write_file p d n f =
     (case node_at f p of
        Some Dir \<Rightarrow> Inl (IsADirectoryError p)
      | _ \<Rightarrow>
        (case node_at f (parent p) of
           Some Dir \<Rightarrow> Inr (AList.update p (File d n) f)
         | Some (File d' n') \<Rightarrow> Inl (NotADirectoryError p)
         | None \<Rightarrow> Inl (FileNotFoundError p)))"

text \<open>\<^verbatim>\<open>Path.unlink()\<close>\<close>

definition unlink :: "path \<Rightarrow> fs \<Rightarrow> exn + fs" where
  "unlink p f =
     (case node_at f p of
        None \<Rightarrow> Inl (FileNotFoundError p)
      | Some Dir \<Rightarrow> Inl (IsADirectoryError p)
      | Some (File d n) \<Rightarrow> Inr (AList.delete p f))"

text \<open>\<^verbatim>\<open>Path.iterdir()\<close>: the entries directly under a directory, in listing order.\<close>

definition iterdir :: "path \<Rightarrow> fs \<Rightarrow> exn + path list" where
  "iterdir d f =
     (case node_at f d of
        None \<Rightarrow> Inl (FileNotFoundError d)
      | Some (File d' n) \<Rightarrow> Inl (NotADirectoryError d)
      | Some Dir \<Rightarrow> Inr (filter (\<lambda>p. p \<noteq> [] \<and> parent p = d) (map fst f)))"

text \<open>
  \<^verbatim>\<open>Path.rename(target)\<close> as POSIX \<^verbatim>\<open>rename(2)\<close> does it: a file replaces a file,
  a directory replaces an empty directory, and everything below a renamed directory
  moves with it.
\<close>

definition move_path :: "path \<Rightarrow> path \<Rightarrow> path \<Rightarrow> path" where
  "move_path src dst p = (if prefix src p then dst @ drop (length src) p else p)"

definition rename :: "path \<Rightarrow> path \<Rightarrow> fs \<Rightarrow> exn + fs" where
  "rename src dst f =
     (case node_at f src of
        None \<Rightarrow> Inl (FileNotFoundError src)
      | Some s \<Rightarrow>
        if src = dst then Inr f
        else if src = [] \<or> dst = [] \<or> prefix src dst then Inl (OSError ''EINVAL'')
        else
          (case node_at f (parent dst) of
             None \<Rightarrow> Inl (FileNotFoundError dst)
           | Some (File d n) \<Rightarrow> Inl (NotADirectoryError dst)
           | Some Dir \<Rightarrow>
             (case (s, node_at f dst) of
                (File d n, Some Dir) \<Rightarrow> Inl (IsADirectoryError dst)
              | (Dir, Some (File d n)) \<Rightarrow> Inl (NotADirectoryError dst)
              | (Dir, Some Dir) \<Rightarrow>
                  if filter (\<lambda>p. p \<noteq> [] \<and> parent p = dst) (map fst f) \<noteq> []
                  then Inl (OSError ''ENOTEMPTY'')
                  else Inr (map (\<lambda>(p, n). (move_path src dst p, n)) (AList.delete dst f))
              | _ \<Rightarrow> Inr (map (\<lambda>(p, n). (move_path src dst p, n)) (AList.delete dst f)))))"

text \<open>\<^verbatim>\<open>Path.stat().st_size\<close>; \<open>dsz\<close> is what the platform reports for a directory.\<close>

definition stat_size :: "nat \<Rightarrow> path \<Rightarrow> fs \<Rightarrow> exn + nat" where
  "stat_size dsz p f =
     (case node_at f p of
        None \<Rightarrow> Inl (FileNotFoundError p)
      | Some Dir \<Rightarrow> Inr dsz
      | Some (File d n) \<Rightarrow> Inr n)"

subsection \<open>The world, and what the outside answers\<close>

text \<open>\<^verbatim>\<open>subprocess.CompletedProcess\<close>\<close>

record completed =
  returncode :: int
  stdout :: string
  stderr :: string

type_synonym argv = "frag list"

text \<open>
  The world a run changes: the files, the log lines written so far, and the
  subprocesses started so far (argument vector and working directory).
\<close>

record world =
  files :: fs
  logged :: "(level \<times> frag list) list"
  procs :: "(argv \<times> path) list"

text \<open>
  What the script cannot decide: \<open>spawn\<close> is what a subprocess does to the files and
  how it exits (\<open>Inl\<close> when it cannot be started), \<open>from_pretrained\<close> is what
  \<^verbatim>\<open>WhisperForConditionalGeneration.from_pretrained\<close> loads, \<open>importable\<close> says
  which modules are installed, \<open>urlretrieve\<close> is the size of a download,
  \<open>tokenizer_vocab\<close> the size of the vocabulary the pretrained tokenizer dumps,
  \<open>pickled_size\<close> and \<open>minimal_size\<close> the sizes of the files the script writes
  itself.
\<close>

record env =
  spawn :: "argv \<Rightarrow> path \<Rightarrow> fs \<Rightarrow> exn + (completed \<times> fs)"
  sys_executable :: string
  importable :: "string \<Rightarrow> bool"
  from_pretrained :: "path \<Rightarrow> fs \<Rightarrow> exn + model"
  pickled_size :: "checkpoint \<Rightarrow> nat"
  urlretrieve :: "string \<Rightarrow> exn + nat"
  tokenizer_vocab :: "exn + nat"
  minimal_size :: "path \<Rightarrow> nat"
  dir_size :: nat

text \<open>
  A computation takes the world and gives back a value or the exception raised, and the
  world as it left it.
\<close>

type_synonym 'a io = "world \<Rightarrow> (exn + 'a) \<times> world"

definition io_ret :: "'a \<Rightarrow> 'a io" where
  "io_ret x = (\<lambda>w. (Inr x, w))"

definition io_raise :: "exn \<Rightarrow> 'a io" where
  "io_raise e = (\<lambda>w. (Inl e, w))"

definition io_bind :: "'a io \<Rightarrow> ('a \<Rightarrow> 'b io) \<Rightarrow> 'b io" where
  "io_bind m k =
     (\<lambda>w. case m w of (Inl e, w') \<Rightarrow> (Inl e, w') | (Inr x, w') \<Rightarrow> k x w')"

text \<open>
  \<^verbatim>\<open>try: x = m  except C as e: handler(e)\<close>, followed by \<open>cont x\<close> when \<open>m\<close>
  did not raise. An exception outside the class \<open>C\<close> goes on up.
\<close>

definition io_catch ::
  "'a io \<Rightarrow> (exn \<Rightarrow> bool) \<Rightarrow> (exn \<Rightarrow> 'b io) \<Rightarrow> ('a \<Rightarrow> 'b io) \<Rightarrow> 'b io" where
  "io_catch m C handler cont =
     (\<lambda>w. case m w of
        (Inl e, w') \<Rightarrow> if C e then handler e w' else (Inl e, w')
      | (Inr x, w') \<Rightarrow> cont x w')"

definition logger_info :: "frag list \<Rightarrow> unit io" where
  "logger_info msg = (\<lambda>w. (Inr (), w\<lparr>logged := logged w @ [(INFO, msg)]\<rparr>))"

definition logger_error :: "frag list \<Rightarrow> unit io" where
  "logger_error msg = (\<lambda>w. (Inr (), w\<lparr>logged := logged w @ [(ERROR, msg)]\<rparr>))"

text \<open>A file-system call: it changes the files, or raises and changes nothing.\<close>

definition fs_op :: "(fs \<Rightarrow> exn + fs) \<Rightarrow> unit io" where
  "fs_op f =
     (\<lambda>w. case f (files w) of
        Inl e \<Rightarrow> (Inl e, w)
      | Inr f' \<Rightarrow> (Inr (), w\<lparr>files := f'\<rparr>))"

text \<open>A call that only reads the files.\<close>

definition fs_read :: "(fs \<Rightarrow> exn + 'a) \<Rightarrow> 'a io" where
  "fs_read f = (\<lambda>w. (f (files w), w))"

definition io_exists :: "path \<Rightarrow> bool io" where
  "io_exists p = (\<lambda>w. (Inr (path_exists (files w) p), w))"

text \<open>
  \<^verbatim>\<open>subprocess.run(argv, cwd=cwd)\<close>: the call is recorded, and the subprocess leaves
  the files as \<open>spawn\<close> says.
\<close>

definition subprocess_run :: "env \<Rightarrow> argv \<Rightarrow> path \<Rightarrow> completed io" where
  "subprocess_run env args cwd =
     (\<lambda>w. case spawn env args cwd (files w) of
        Inl e \<Rightarrow> (Inl e, w\<lparr>procs := procs w @ [(args, cwd)]\<rparr>)
      | Inr (r, f') \<Rightarrow> (Inr r, w\<lparr>files := f', procs := procs w @ [(args, cwd)]\<rparr>))"

text \<open>\<^verbatim>\<open>import m\<close>\<close>

definition import_module :: "env \<Rightarrow> string \<Rightarrow> unit io" where
  "import_module env m = (if importable env m then io_ret () else io_raise (ImportError m))"

subsection \<open>\<^verbatim>\<open>download_whisper_cpp\<close>\<close>

definition download_whisper_cpp :: "env \<Rightarrow> path io" where
  "download_whisper_cpp env =
     (let whisper_cpp_dir = [''whisper.cpp''] in
      io_bind (io_exists whisper_cpp_dir) (\<lambda>present.
      if present then
        io_bind (logger_info [Lit ''whisper.cpp already exists'']) (\<lambda>_.
        io_ret whisper_cpp_dir)
      else
        io_bind (logger_info [Lit ''Downloading whisper.cpp...'']) (\<lambda>_.
        io_bind (subprocess_run env
                   [Lit ''git'', Lit ''clone'',
                    Lit ''https://github.com/ggerganov/whisper.cpp.git''] []) (\<lambda>result.
        if returncode result \<noteq> 0 then
          io_raise (RuntimeError [Lit ''Failed to clone whisper.cpp''])
        else
          io_bind (logger_info [Lit ''Building whisper.cpp...'']) (\<lambda>_.
          io_bind (subprocess_run env [Lit ''make''] whisper_cpp_dir) (\<lambda>result.
          if returncode result \<noteq> 0 then
            io_raise (RuntimeError [Lit ''Failed to build whisper.cpp''])
          else io_ret whisper_cpp_dir))))))"

subsection \<open>\<^verbatim>\<open>setup_whisper_assets\<close>\<close>

text \<open>A download to a file: \<^verbatim>\<open>urllib.request.urlretrieve(url, file)\<close>.\<close>

definition download_to :: "env \<Rightarrow> string \<Rightarrow> path \<Rightarrow> unit io" where
  "download_to env url p =
     (case urlretrieve env url of
        Inl e \<Rightarrow> io_raise e
      | Inr n \<Rightarrow> fs_op (write_file p Opaque n))"

definition is_Exception :: "exn \<Rightarrow> bool" where
  "is_Exception e = True"

definition setup_whisper_assets :: "env \<Rightarrow> path \<Rightarrow> unit io" where
  "setup_whisper_assets env whisper_cpp_dir =
     (let assets_dir = pjoin (pjoin whisper_cpp_dir ''whisper'') ''assets'';
          mel_filters_file = pjoin assets_dir ''mel_filters.npz'';
          gpt2_dir = pjoin assets_dir ''gpt2'';
          vocab_file = pjoin gpt2_dir ''vocab.json''
      in
      io_bind (io_exists mel_filters_file) (\<lambda>have_mel.
      io_bind (io_exists vocab_file) (\<lambda>have_vocab.
      if have_mel \<and> have_vocab then logger_info [Lit ''Whisper assets already exist'']
      else
        io_bind (logger_info [Lit ''Setting up whisper assets...'']) (\<lambda>_.
        io_bind (fs_op (mkdir_p assets_dir)) (\<lambda>_.
        io_bind (fs_op (mkdir_p gpt2_dir)) (\<lambda>_.
        io_bind (io_exists mel_filters_file) (\<lambda>have_mel.
        io_bind
          (if \<not> have_mel then
             io_catch
               (io_bind
                  (download_to env
                     ''https://github.com/openai/whisper/raw/main/whisper/assets/mel_filters.npz''
                     mel_filters_file) (\<lambda>_.
                logger_info [Lit ''Downloaded mel_filters.npz'']))
               is_Exception
               (\<lambda>e.
                  io_bind (logger_error [Lit ''Failed to download mel_filters.npz: '', Exn e]) (\<lambda>_.
                  io_bind (import_module env ''numpy'') (\<lambda>_.
                  io_bind (fs_op (write_file mel_filters_file Opaque
                                    (minimal_size env mel_filters_file))) (\<lambda>_.
                  logger_info [Lit ''Created minimal mel_filters.npz'']))))
               io_ret
           else io_ret ()) (\<lambda>_.
        io_bind (io_exists vocab_file) (\<lambda>have_vocab.
        if \<not> have_vocab then
          io_catch
            (io_bind (import_module env ''transformers'') (\<lambda>_.
             io_bind (case tokenizer_vocab env of
                        Inl e \<Rightarrow> io_raise e
                      | Inr n \<Rightarrow> fs_op (write_file vocab_file Opaque n)) (\<lambda>_.
             logger_info [Lit ''Created vocab.json from transformers''])))
            is_Exception
            (\<lambda>e.
               io_bind (logger_error [Lit ''Failed to create vocab.json: '', Exn e]) (\<lambda>_.
               io_catch
                 (io_bind
                    (download_to env
                       ''https://github.com/openai/whisper/raw/main/whisper/assets/gpt2/vocab.json''
                       vocab_file) (\<lambda>_.
                  logger_info [Lit ''Downloaded vocab.json from GitHub'']))
                 is_Exception
                 (\<lambda>e2.
                    io_bind (logger_error [Lit ''Failed to download vocab.json: '', Exn e2]) (\<lambda>_.
                    io_bind (fs_op (write_file vocab_file Opaque
                                      (minimal_size env vocab_file))) (\<lambda>_.
                    logger_info [Lit ''Created minimal vocab.json''])))
                 io_ret))
            io_ret
        else io_ret ())))))))))"

subsection \<open>\<^verbatim>\<open>convert_hf_to_ggml\<close>\<close>

text \<open>
  The dict literal \<^verbatim>\<open>dims = {"n_mels": model.config.num_mel_bins, ...}\<close> (lines 147 to
  158): each key with the configuration attribute it reads, in the order of the source.
  The entries are evaluated in order and the first missing attribute raises.
\<close>

definition dim_fields :: "(string \<times> string) list" where
  "dim_fields =
     [(''n_mels'', ''num_mel_bins''),
      (''n_audio_ctx'', ''max_source_positions''),
      (''n_audio_state'', ''d_model''),
      (''n_audio_head'', ''encoder_attention_heads''),
      (''n_audio_layer'', ''encoder_layers''),
      (''n_vocab'', ''vocab_size''),
      (''n_text_ctx'', ''max_target_positions''),
      (''n_text_state'', ''d_model''),
      (''n_text_head'', ''decoder_attention_heads''),
      (''n_text_layer'', ''decoder_layers'')]"

fun read_dims :: "config \<Rightarrow> (string \<times> string) list \<Rightarrow> exn + dims" where
  "read_dims c [] = Inr []"
| "read_dims c ((k, a) # rest) =
     (case c a of
        None \<Rightarrow> Inl (AttributeError a)
      | Some v \<Rightarrow>
        (case read_dims c rest of
           Inl e \<Rightarrow> Inl e
         | Inr d \<Rightarrow> Inr ((k, v) # d)))"

definition make_dims :: "config \<Rightarrow> exn + dims" where
  "make_dims c = read_dims c dim_fields"

text \<open>
  Lines 135 to 172, the adaptation: the imports, the assets, loading the model, building
  the dimensions and saving the compatible checkpoint. It returns the path of the
  checkpoint file it wrote.
\<close>

definition adapt :: "env \<Rightarrow> path \<Rightarrow> path \<Rightarrow> path \<Rightarrow> path io" where
  "adapt env model_path output_path whisper_cpp_dir =
     io_bind (import_module env ''torch'') (\<lambda>_.
     io_bind (import_module env ''transformers'') (\<lambda>_.
     io_bind (setup_whisper_assets env whisper_cpp_dir) (\<lambda>_.
     io_bind (logger_info [Lit ''Loading Hugging Face model...'']) (\<lambda>_.
     io_bind (fs_read (from_pretrained env model_path)) (\<lambda>model.
     io_bind (logger_info [Lit ''Creating compatible checkpoint format...'']) (\<lambda>_.
     (case make_dims (config model) of
        Inl e \<Rightarrow> io_raise e
      | Inr dims \<Rightarrow>
        (let checkpoint = (dims, state_dict model);
             output_dir = parent output_path
         in
         io_bind (fs_op (mkdir_p output_dir)) (\<lambda>_.
         (let compatible_pt = pjoin output_dir ''whisper_compatible.pt'' in
          io_bind (logger_info [Lit ''Saving compatible checkpoint to '', Path compatible_pt,
                                Lit ''...'']) (\<lambda>_.
          io_bind (fs_op (write_file compatible_pt (Pickle checkpoint)
                            (pickled_size env checkpoint))) (\<lambda>_.
          io_ret compatible_pt))))))))))))"

text \<open>Lines 175 to 197: the conversion script is looked up and run.\<close>

definition run_converter :: "env \<Rightarrow> path \<Rightarrow> path \<Rightarrow> path \<Rightarrow> unit io" where
  "run_converter env compatible_pt whisper_cpp_dir output_dir =
     (let convert_script = pjoin (pjoin whisper_cpp_dir ''models'') ''convert-pt-to-ggml.py'' in
      io_bind (io_exists convert_script) (\<lambda>present.
      if \<not> present then
        io_bind (logger_error [Lit ''Conversion script not found: '', Path convert_script]) (\<lambda>_.
        io_raise (RuntimeError [Lit ''Conversion script not found: '', Path convert_script]))
      else
        io_bind (logger_info [Lit ''Using conversion script: '', Path convert_script]) (\<lambda>_.
        io_bind (logger_info [Lit ''Converting compatible checkpoint...'']) (\<lambda>_.
        io_bind (subprocess_run env
                   [Lit (sys_executable env), Path convert_script, Path compatible_pt,
                    Path whisper_cpp_dir, Path output_dir, Lit ''use-f32''] []) (\<lambda>result.
        if returncode result \<noteq> 0 then
          io_bind (logger_error [Lit ''Conversion failed:'']) (\<lambda>_.
          io_bind (logger_error [Lit ''stderr: '', Lit (stderr result)]) (\<lambda>_.
          io_bind (logger_error [Lit ''stdout: '', Lit (stdout result)]) (\<lambda>_.
          io_raise (RuntimeError [Lit ''Failed to convert model to GGML format'']))))
        else io_ret ())))))"

text \<open>
  Line 204: \<^verbatim>\<open>file.suffix in ['.bin', '.ggml'] and 'ggml' in file.name\<close>.
\<close>

definition is_ggml_file :: "path \<Rightarrow> bool" where
  "is_ggml_file file =
     (path_suffix (path_name file) \<in> set [''.bin'', ''.ggml'']
      \<and> str_in ''ggml'' (path_name file))"

text \<open>Lines 203 to 206: the loop over the directory, logging and collecting.\<close>

fun ggml_scan :: "path list \<Rightarrow> path list \<Rightarrow> path list io" where
  "ggml_scan [] ggml_files = io_ret ggml_files"
| "ggml_scan (file # rest) ggml_files =
     (if is_ggml_file file then
        io_bind (logger_info [Lit ''  - '', Path file]) (\<lambda>_.
        ggml_scan rest (ggml_files @ [file]))
      else ggml_scan rest ggml_files)"

text \<open>Lines 199 to 215: the produced file is looked for and renamed.\<close>

definition discover :: "path \<Rightarrow> path \<Rightarrow> unit io" where
  "discover output_dir output_path =
     io_bind (logger_info [Lit ''Conversion completed. Output directory: '', Path output_dir]) (\<lambda>_.
     io_bind (logger_info [Lit ''Generated files:'']) (\<lambda>_.
     io_bind (fs_read (iterdir output_dir)) (\<lambda>entries.
     io_bind (ggml_scan entries []) (\<lambda>ggml_files.
     (case ggml_files of
        actual_output # _ \<Rightarrow>
          if actual_output \<noteq> output_path then
            io_bind (fs_op (rename actual_output output_path)) (\<lambda>_.
            logger_info [Lit ''  -> Renamed to '', Path output_path])
          else io_ret ()
      | [] \<Rightarrow> io_raise (RuntimeError [Lit ''No GGML output file found in '', Path output_dir]))))))"

text \<open>Lines 217 to 221: the temporary checkpoint is removed.\<close>

definition cleanup :: "path \<Rightarrow> path \<Rightarrow> unit io" where
  "cleanup compatible_pt output_path =
     io_bind (fs_op (unlink compatible_pt)) (\<lambda>_.
     io_bind (logger_info [Lit ''Cleaned up temporary files'']) (\<lambda>_.
     logger_info [Lit ''Converted to GGML: '', Path output_path]))"

text \<open>Lines 175 to 221, what follows the adaptation inside the \<^verbatim>\<open>try\<close>.\<close>

definition convert :: "env \<Rightarrow> path \<Rightarrow> path \<Rightarrow> path \<Rightarrow> unit io" where
  "convert env compatible_pt output_path whisper_cpp_dir =
     io_bind (run_converter env compatible_pt whisper_cpp_dir (parent output_path)) (\<lambda>_.
     io_bind (discover (parent output_path) output_path) (\<lambda>_.
     cleanup compatible_pt output_path))"

text \<open>
  The whole function: the body of the \<^verbatim>\<open>try\<close>, and the handler that logs whatever
  was raised and raises the one \<^verbatim>\<open>RuntimeError\<close> in its place.
\<close>

definition convert_hf_to_ggml :: "env \<Rightarrow> path \<Rightarrow> path \<Rightarrow> path \<Rightarrow> unit io" where
  "convert_hf_to_ggml env model_path output_path whisper_cpp_dir =
     io_bind (logger_info [Lit ''Converting '', Path model_path, Lit '' to GGML format...'']) (\<lambda>_.
     io_catch
       (io_bind (adapt env model_path output_path whisper_cpp_dir) (\<lambda>compatible_pt.
        convert env compatible_pt output_path whisper_cpp_dir))
       is_Exception
       (\<lambda>e.
          io_bind (logger_error [Lit ''Failed to convert model: '', Exn e]) (\<lambda>_.
          io_raise (RuntimeError [Lit ''Failed to convert model to GGML format''])))
       io_ret)"

subsection \<open>\<^verbatim>\<open>quantize_model\<close>\<close>

text \<open>
  One entry of the result: \<^verbatim>\<open>{"path": str(output_path), "size_mb": round(size_mb, 1)}\<close>.
  The size is kept in tenths of a MiB. \<^verbatim>\<open>st_size / (1024 * 1024)\<close> is exact in
  floating point for every size below \<open>2 ^ 53\<close>, and \<^verbatim>\<open>round(x, 1)\<close> rounds the exact
  value, a tie to the even tenth.
\<close>

record artifact =
  art_path :: path
  size_mb :: nat

type_synonym results = "(string \<times> artifact) list"

definition round_tenths :: "nat \<Rightarrow> nat" where
  "round_tenths st_size =
     (let q = (10 * st_size) div 1048576;
          r = (10 * st_size) mod 1048576
      in if 2 * r < 1048576 then q
         else if 1048576 < 2 * r then q + 1
         else if even q then q else q + 1)"

definition quantizations :: "(string \<times> string) list" where
  "quantizations =
     [(''q8_0'', ''Best quality quantized''),
      (''q5_0'', ''Good balance''),
      (''q4_0'', ''Smallest size'')]"

text \<open>\<^verbatim>\<open>f"whisper-atc-{quant_type}.bin"\<close>\<close>

definition quantized_name :: "string \<Rightarrow> string" where
  "quantized_name quant_type = ''whisper-atc-'' @ quant_type @ ''.bin''"

text \<open>Lines 242 to 262, the loop over the precisions.\<close>

fun quantize_loop ::
  "env \<Rightarrow> path \<Rightarrow> path \<Rightarrow> path \<Rightarrow> (string \<times> string) list \<Rightarrow> results \<Rightarrow> results io" where
  "quantize_loop env quantize_binary ggml_path output_dir [] results = io_ret results"
| "quantize_loop env quantize_binary ggml_path output_dir ((quant_type, description) # rest) results =
     (let output_path = pjoin output_dir (quantized_name quant_type) in
      io_bind (logger_info [Lit ''Quantizing to '', Lit quant_type, Lit '' ('',
                            Lit description, Lit '')...'']) (\<lambda>_.
      io_bind (subprocess_run env
                 [Path quantize_binary, Path ggml_path, Path output_path, Lit quant_type] [])
              (\<lambda>result.
      if returncode result = 0 then
        io_bind (fs_read (stat_size (dir_size env) output_path)) (\<lambda>st_size.
        io_bind (logger_info [Lit quant_type, Lit '': '', Tenths (round_tenths st_size),
                              Lit '' MB'']) (\<lambda>_.
        quantize_loop env quantize_binary ggml_path output_dir rest
          (AList.update quant_type
             \<lparr>art_path = output_path, size_mb = round_tenths st_size\<rparr> results)))
      else
        io_bind (logger_error [Lit ''Failed to quantize to '', Lit quant_type]) (\<lambda>_.
        quantize_loop env quantize_binary ggml_path output_dir rest results))))"

definition quantize_model :: "env \<Rightarrow> path \<Rightarrow> path \<Rightarrow> path \<Rightarrow> results io" where
  "quantize_model env ggml_path output_dir whisper_cpp_dir =
     (let quantize_binary = pjoin (pjoin (pjoin whisper_cpp_dir ''build'') ''bin'') ''quantize'' in
      io_bind (io_exists quantize_binary) (\<lambda>present.
      if \<not> present then
        io_raise (RuntimeError [Lit ''Quantize binary not found: '', Path quantize_binary])
      else quantize_loop env quantize_binary ggml_path output_dir quantizations []))"

subsection \<open>\<^verbatim>\<open>main\<close>\<close>

text \<open>The parsed command line.\<close>

record args =
  arg_model_path :: path
  arg_output_dir :: path
  arg_skip_quantization :: bool

text \<open>Lines 310 and 311: one summary line for each entry of the result.\<close>

fun log_results :: "results \<Rightarrow> unit io" where
  "log_results [] = io_ret ()"
| "log_results ((quant_type, a) # rest) =
     io_bind (logger_info [Lit ''  '', Lit quant_type, Lit '': '', Tenths (size_mb a),
                           Lit '' MB - '', Path (art_path a)]) (\<lambda>_.
     log_results rest)"

definition main :: "env \<Rightarrow> args \<Rightarrow> unit io" where
  "main env a =
     (let model_path = arg_model_path a;
          output_dir = arg_output_dir a
      in
      io_bind (fs_op (mkdir_p output_dir)) (\<lambda>_.
      io_bind (io_exists model_path) (\<lambda>present.
      if \<not> present then
        io_bind (logger_error [Lit ''Model path not found: '', Path model_path]) (\<lambda>_.
        logger_info [Lit ''Please run train_atc_model.py first''])
      else
        io_catch (download_whisper_cpp env) is_RuntimeError
          (\<lambda>e. logger_error [Lit ''Failed to setup whisper.cpp: '', Exn e])
          (\<lambda>whisper_cpp_dir.
             (let ggml_path = pjoin output_dir ''whisper-atc.bin'' in
              io_catch (convert_hf_to_ggml env model_path ggml_path whisper_cpp_dir)
                is_RuntimeError
                (\<lambda>e. logger_error [Lit ''Failed to convert model: '', Exn e])
                (\<lambda>_.
                   io_bind
                     (if \<not> arg_skip_quantization a then
                        io_catch
                          (io_bind (quantize_model env ggml_path output_dir whisper_cpp_dir)
                             (\<lambda>results.
                           io_bind (logger_info [Lit ''Quantization Results:'']) (\<lambda>_.
                           io_bind (log_results results) (\<lambda>_.
                           io_bind (logger_info [Lit ''Recommendations:'']) (\<lambda>_.
                           io_bind (logger_info
                                      [Lit ''  q8_0: Best quality, use for production'']) (\<lambda>_.
                           io_bind (logger_info
                                      [Lit ''  q5_0: Good balance for development'']) (\<lambda>_.
                           logger_info
                             [Lit ''  q4_0: Smallest size, use if memory constrained''])))))))
                          is_RuntimeError
                          (\<lambda>e.
                             io_bind (logger_error [Lit ''Failed to quantize model: '', Exn e]) (\<lambda>_.
                             logger_info [Lit ''GGML model available at: '', Path ggml_path]))
                          io_ret
                      else io_ret ()) (\<lambda>_.
                   io_bind (logger_info [Lit ''Model conversion complete!'']) (\<lambda>_.
                   io_bind (logger_info [Lit ''Output directory: '', Path output_dir]) (\<lambda>_.
                   logger_info
                     [Lit ''Next step: Copy quantized models to ../resources/models/atc-custom/''])))))))))"

section \<open>A worked installation\<close>

text \<open>
  One concrete outside world, used to run the functions: a built whisper.cpp with its
  assets, a trained model directory, a converter that writes \<^verbatim>\<open>ggml-model-f32.bin\<close>
  into the output directory, and a quantizer that fails for \<^verbatim>\<open>q5_0\<close> and writes its
  output file otherwise. Cloning and building fail (there is no network).
\<close>

definition demo_config :: "(string \<times> int) list" where
  "demo_config =
     [(''num_mel_bins'', 80), (''max_source_positions'', 1500), (''d_model'', 384),
      (''encoder_attention_heads'', 6), (''encoder_layers'', 4), (''vocab_size'', 51864),
      (''max_target_positions'', 448), (''decoder_attention_heads'', 6),
      (''decoder_layers'', 4)]"

definition exited :: "int \<Rightarrow> completed" where
  "exited rc = \<lparr>returncode = rc, stdout = ''out'', stderr = ''err''\<rparr>"

definition demo_spawn :: "argv \<Rightarrow> path \<Rightarrow> fs \<Rightarrow> exn + (completed \<times> fs)" where
  "demo_spawn args cwd f =
     (case args of
        [Lit exe, Path script, Path pt, Path wd, Path od, Lit flag] \<Rightarrow>
          Inr (exited 0, AList.update (pjoin od ''ggml-model-f32.bin'') (File Opaque 4000000) f)
      | [Path qb, Path inp, Path outp, Lit lvl] \<Rightarrow>
          if lvl = ''q5_0'' then Inr (exited 1, f)
          else Inr (exited 0, AList.update outp (File Opaque 1572864) f)
      | _ \<Rightarrow> Inr (exited 1, f))"

definition demo_env :: env where
  "demo_env =
     \<lparr>spawn = demo_spawn,
      sys_executable = ''python3'',
      importable = (\<lambda>m. True),
      from_pretrained = (\<lambda>p f. Inr \<lparr>config = map_of demo_config, state_dict = []\<rparr>),
      pickled_size = (\<lambda>c. 5000000),
      urlretrieve = (\<lambda>u. Inr 1000),
      tokenizer_vocab = Inr 2000,
      minimal_size = (\<lambda>p. 10),
      dir_size = 4096\<rparr>"

definition demo_files :: fs where
  "demo_files =
     [([''whisper.cpp''], Dir),
      ([''whisper.cpp'', ''models''], Dir),
      ([''whisper.cpp'', ''models'', ''convert-pt-to-ggml.py''], File Opaque 9000),
      ([''whisper.cpp'', ''build''], Dir),
      ([''whisper.cpp'', ''build'', ''bin''], Dir),
      ([''whisper.cpp'', ''build'', ''bin'', ''quantize''], File Opaque 90000),
      ([''whisper.cpp'', ''whisper''], Dir),
      ([''whisper.cpp'', ''whisper'', ''assets''], Dir),
      ([''whisper.cpp'', ''whisper'', ''assets'', ''mel_filters.npz''], File Opaque 4000),
      ([''whisper.cpp'', ''whisper'', ''assets'', ''gpt2''], Dir),
      ([''whisper.cpp'', ''whisper'', ''assets'', ''gpt2'', ''vocab.json''], File Opaque 2000),
      ([''final''], Dir)]"

definition demo_world :: world where
  "demo_world = \<lparr>files = demo_files, logged = [], procs = []\<rparr>"

text \<open>A world with nothing in the working directory.\<close>

definition empty_world :: world where
  "empty_world = \<lparr>files = [], logged = [], procs = []\<rparr>"

text \<open>The dimensions of the worked model, and the world after its adaptation.\<close>

definition demo_dims :: dims where
  "demo_dims =
     [(''n_mels'', 80), (''n_audio_ctx'', 1500), (''n_audio_state'', 384),
      (''n_audio_head'', 6), (''n_audio_layer'', 4), (''n_vocab'', 51864),
      (''n_text_ctx'', 448), (''n_text_state'', 384), (''n_text_head'', 6),
      (''n_text_layer'', 4)]"

definition demo_adapted :: world where
  "demo_adapted =
     \<lparr>files = demo_files @
        [([''out''], Dir),
         ([''out'', ''whisper_compatible.pt''], File (Pickle (demo_dims, [])) 5000000)],
      logged =
        [(INFO, [Lit ''Whisper assets already exist'']),
         (INFO, [Lit ''Loading Hugging Face model...'']),
         (INFO, [Lit ''Creating compatible checkpoint format...'']),
         (INFO, [Lit ''Saving compatible checkpoint to '',
                 Path [''out'', ''whisper_compatible.pt''], Lit ''...''])],
      procs = []\<rparr>"

text \<open>
  Two other model directories: one whose configuration says zero mel bins, and one whose
  configuration has no \<^verbatim>\<open>vocab_size\<close>.
\<close>

definition zero_env :: env where
  "zero_env =
     demo_env\<lparr>from_pretrained :=
       (\<lambda>p f. Inr \<lparr>config = (map_of demo_config)(''num_mel_bins'' \<mapsto> 0), state_dict = []\<rparr>)\<rparr>"

definition partial_env :: env where
  "partial_env =
     demo_env\<lparr>from_pretrained :=
       (\<lambda>p f. Inr \<lparr>config = (map_of demo_config)(''vocab_size'' := None), state_dict = []\<rparr>)\<rparr>"

text \<open>A toolchain whose every subprocess exits with status 1 and touches nothing.\<close>

definition failing_env :: env where
  "failing_env = demo_env\<lparr>spawn := (\<lambda>args cwd f. Inr (exited 1, f))\<rparr>"

text \<open>The world after the adaptation when \<open>convert_hf_to_ggml\<close> has logged its first line.\<close>

definition demo_converting :: world where
  "demo_converting =
     demo_adapted\<lparr>logged :=
       (INFO, [Lit ''Converting '', Path [''final''], Lit '' to GGML format...''])
         # logged demo_adapted\<rparr>"



text \<open>
  A quantizer that exits as the worked one does, with status 1 for \<^verbatim>\<open>q5_0\<close> and 0
  otherwise, but never writes a file.
\<close>

definition idle_env :: env where
  "idle_env =
     demo_env\<lparr>spawn :=
       (\<lambda>args cwd f.
          case args of
            [Path qb, Path inp, Path outp, Lit lvl] \<Rightarrow>
              Inr (exited (if lvl = ''q5_0'' then 1 else 0), f)
          | _ \<Rightarrow> Inr (exited 1, f))\<rparr>"

section \<open>What the theorems speak of\<close>

text \<open>The checkpoint files on disk: the entries that hold a pickled checkpoint.\<close>

fun is_pickle :: "node \<Rightarrow> bool" where
  "is_pickle (File (Pickle c) n) = True"
| "is_pickle x = False"

definition checkpoint_files :: "fs \<Rightarrow> (path \<times> node) list" where
  "checkpoint_files f = filter (\<lambda>(p, n). is_pickle n) f"

text \<open>
  A step is quiet when it starts no subprocess and leaves no checkpoint file that was
  not there before; a computation keeps quiet when every run of it is such a step.
\<close>

definition quiet :: "world \<Rightarrow> world \<Rightarrow> bool" where
  "quiet w w' =
     (set (checkpoint_files (files w')) \<subseteq> set (checkpoint_files (files w))
      \<and> procs w' = procs w)"

definition keeps :: "'a io \<Rightarrow> bool" where
  "keeps m = (\<forall>w. quiet w (snd (m w)))"

text \<open>
  Lines 288 to 325 of \<^verbatim>\<open>main\<close> on their own: what it does once the model path has
  been found, from the provisioning on.
\<close>

definition main_pipeline :: "env \<Rightarrow> args \<Rightarrow> unit io" where
  "main_pipeline env a =
     (let model_path = arg_model_path a;
          output_dir = arg_output_dir a
      in
        io_catch (download_whisper_cpp env) is_RuntimeError
          (\<lambda>e. logger_error [Lit ''Failed to setup whisper.cpp: '', Exn e])
          (\<lambda>whisper_cpp_dir.
             (let ggml_path = pjoin output_dir ''whisper-atc.bin'' in
              io_catch (convert_hf_to_ggml env model_path ggml_path whisper_cpp_dir)
                is_RuntimeError
                (\<lambda>e. logger_error [Lit ''Failed to convert model: '', Exn e])
                (\<lambda>_.
                   io_bind
                     (if \<not> arg_skip_quantization a then
                        io_catch
                          (io_bind (quantize_model env ggml_path output_dir whisper_cpp_dir)
                             (\<lambda>results.
                           io_bind (logger_info [Lit ''Quantization Results:'']) (\<lambda>_.
                           io_bind (log_results results) (\<lambda>_.
                           io_bind (logger_info [Lit ''Recommendations:'']) (\<lambda>_.
                           io_bind (logger_info
                                      [Lit ''  q8_0: Best quality, use for production'']) (\<lambda>_.
                           io_bind (logger_info
                                      [Lit ''  q5_0: Good balance for development'']) (\<lambda>_.
                           logger_info
                             [Lit ''  q4_0: Smallest size, use if memory constrained''])))))))
                          is_RuntimeError
                          (\<lambda>e.
                             io_bind (logger_error [Lit ''Failed to quantize model: '', Exn e]) (\<lambda>_.
                             logger_info [Lit ''GGML model available at: '', Path ggml_path]))
                          io_ret
                      else io_ret ()) (\<lambda>_.
                   io_bind (logger_info [Lit ''Model conversion complete!'']) (\<lambda>_.
                   io_bind (logger_info [Lit ''Output directory: '', Path output_dir]) (\<lambda>_.
                   logger_info
                     [Lit ''Next step: Copy quantized models to ../resources/models/atc-custom/''])))))))"




text \<open>
  The argument vector of lines 247 to 252 for one level: the quantizer of the whisper.cpp
  directory, the converted model, the output file of the level, the level.
\<close>

definition quantize_call :: "path \<Rightarrow> path \<Rightarrow> path \<Rightarrow> string \<Rightarrow> argv" where
  "quantize_call whisper_cpp_dir ggml_path output_dir quant_type =
     [Path (pjoin (pjoin (pjoin whisper_cpp_dir ''build'') ''bin'') ''quantize''),
      Path ggml_path, Path (pjoin output_dir (quantized_name quant_type)), Lit quant_type]"

section \<open>Properties\<close>

lemmas io_defs = io_ret_def io_raise_def io_bind_def io_catch_def logger_info_def
  logger_error_def fs_op_def fs_read_def io_exists_def subprocess_run_def import_module_def

subsection \<open>The file system and quiet steps\<close>

lemma quiet_refl: "quiet w w" by (simp add: quiet_def)
lemma quiet_trans: "quiet w w1 \<Longrightarrow> quiet w1 w2 \<Longrightarrow> quiet w w2" by (auto simp: quiet_def)
lemma quiet_logged: "quiet w (w'\<lparr>logged := l\<rparr>) = quiet w w'" by (simp add: quiet_def)

lemma node_at_append_dir:
  "node_at (f @ [(p, Dir)]) q =
     (case node_at f q of Some n \<Rightarrow> Some n | None \<Rightarrow> if q = p then Some Dir else None)"
  by (auto simp: node_at_def map_add_def split: option.splits)

lemma mk_from_dir:
  "node_at f base = Some Dir \<Longrightarrow> mk_from t base cs f = Inr f' \<Longrightarrow> node_at f' (base @ cs) = Some Dir"
proof (induction cs arbitrary: base f)
  case Nil
  then show ?case by simp
next
  case (Cons c cs)
  show ?case
  proof (cases "node_at f (base @ [c])")
    case None
    with Cons.prems have "mk_from t (base @ [c]) cs (f @ [(base @ [c], Dir)]) = Inr f'" by simp
    moreover have "node_at (f @ [(base @ [c], Dir)]) (base @ [c]) = Some Dir"
      using None by (simp add: node_at_append_dir)
    ultimately have "node_at f' ((base @ [c]) @ cs) = Some Dir" by (rule Cons.IH[rotated])
    then show ?thesis by simp
  next
    case (Some n)
    show ?thesis
    proof (cases n)
      case Dir
      with Some Cons.prems have "mk_from t (base @ [c]) cs f = Inr f'" by simp
      with Some Dir have "node_at f' ((base @ [c]) @ cs) = Some Dir" by (intro Cons.IH) auto
      then show ?thesis by simp
    next
      case (File d k)
      with Some Cons.prems show ?thesis by simp
    qed
  qed
qed

lemma mkdir_p_dir: "mkdir_p p f = Inr f' \<Longrightarrow> node_at f' p = Some Dir"
  using mk_from_dir[of f "[]" p p f'] by (simp add: mkdir_p_def node_at_def)

lemma mk_from_extends:
  "mk_from t base cs f = Inr f' \<Longrightarrow> \<exists>ds. f' = f @ map (\<lambda>p. (p, Dir)) ds"
proof (induction cs arbitrary: base f)
  case Nil
  then show ?case by simp
next
  case (Cons c cs)
  show ?case
  proof (cases "node_at f (base @ [c])")
    case None
    with Cons.prems have "mk_from t (base @ [c]) cs (f @ [(base @ [c], Dir)]) = Inr f'" by simp
    then obtain ds where "f' = (f @ [(base @ [c], Dir)]) @ map (\<lambda>p. (p, Dir)) ds"
      using Cons.IH by blast
    then have "f' = f @ map (\<lambda>p. (p, Dir)) ((base @ [c]) # ds)" by simp
    then show ?thesis by blast
  next
    case (Some n)
    with Cons.prems Cons.IH show ?thesis by (cases n) auto
  qed
qed

lemma mkdir_p_extends: "mkdir_p p f = Inr f' \<Longrightarrow> \<exists>ds. f' = f @ map (\<lambda>p. (p, Dir)) ds"
  unfolding mkdir_p_def by (rule mk_from_extends)

lemma checkpoint_files_dirs: "checkpoint_files (f @ map (\<lambda>p. (p, Dir)) ds) = checkpoint_files f"
  by (induction ds) (auto simp: checkpoint_files_def)

lemma set_update_subset: "set (AList.update k v l) \<subseteq> insert (k, v) (set l)"
  by (induction l) auto

lemma keeps_ret: "keeps (io_ret x)" by (simp add: keeps_def io_defs quiet_refl)
lemma keeps_raise: "keeps (io_raise e)" by (simp add: keeps_def io_defs quiet_refl)
lemma keeps_info: "keeps (logger_info m)" by (simp add: keeps_def io_defs quiet_def)
lemma keeps_error: "keeps (logger_error m)" by (simp add: keeps_def io_defs quiet_def)
lemma keeps_exists: "keeps (io_exists p)" by (simp add: keeps_def io_defs quiet_refl)
lemma keeps_read: "keeps (fs_read g)" by (simp add: keeps_def io_defs quiet_refl)
lemma keeps_import: "keeps (import_module env m)"
  by (simp add: import_module_def keeps_ret keeps_raise)

lemma keeps_bind:
  assumes "keeps m" and "\<And>x. keeps (k x)"
  shows "keeps (io_bind m k)"
proof (unfold keeps_def, intro allI)
  fix w
  obtain r w1 where mw: "m w = (r, w1)" by (cases "m w")
  have q1: "quiet w w1" using assms(1) mw unfolding keeps_def by (metis snd_conv)
  show "quiet w (snd (io_bind m k w))"
  proof (cases r)
    case (Inl e)
    then show ?thesis using mw q1 by (simp add: io_bind_def)
  next
    case (Inr x)
    have "quiet w1 (snd (k x w1))" using assms(2) unfolding keeps_def by blast
    then show ?thesis using mw Inr by (simp add: io_bind_def quiet_trans[OF q1])
  qed
qed

lemma keeps_catch:
  assumes "keeps m" and "\<And>e. keeps (h e)" and "\<And>x. keeps (k x)"
  shows "keeps (io_catch m C h k)"
proof (unfold keeps_def, intro allI)
  fix w
  obtain r w1 where mw: "m w = (r, w1)" by (cases "m w")
  have q1: "quiet w w1" using assms(1) mw unfolding keeps_def by (metis snd_conv)
  show "quiet w (snd (io_catch m C h k w))"
  proof (cases r)
    case (Inl e)
    have "quiet w1 (snd (h e w1))" using assms(2) unfolding keeps_def by blast
    then show ?thesis using mw Inl q1 by (simp add: io_catch_def quiet_trans[OF q1])
  next
    case (Inr x)
    have "quiet w1 (snd (k x w1))" using assms(3) unfolding keeps_def by blast
    then show ?thesis using mw Inr by (simp add: io_catch_def quiet_trans[OF q1])
  qed
qed

lemma keeps_mkdir: "keeps (fs_op (mkdir_p p))"
  unfolding keeps_def fs_op_def
  by (auto simp: quiet_def checkpoint_files_dirs split: sum.splits dest!: mkdir_p_extends)

lemma keeps_write_opaque: "keeps (fs_op (write_file p Opaque n))"
proof -
  have "set (checkpoint_files (AList.update p (File Opaque n) f)) \<subseteq> set (checkpoint_files f)" for f
    using set_update_subset[of p "File Opaque n" f] by (auto simp: checkpoint_files_def)
  then show ?thesis
    unfolding keeps_def fs_op_def
    by (auto simp: quiet_def write_file_def split: sum.splits option.splits node.splits)
qed

lemma keeps_download: "keeps (download_to env url p)"
  by (simp add: download_to_def keeps_raise keeps_write_opaque split: sum.splits)

lemmas keeps_intros = keeps_ret keeps_raise keeps_info keeps_error keeps_exists keeps_read
  keeps_import keeps_bind keeps_catch keeps_mkdir keeps_write_opaque keeps_download


lemma keeps_if: "keeps a \<Longrightarrow> keeps b \<Longrightarrow> keeps (if c then a else b)" by simp
lemma keeps_case_sum:
  "(\<And>e. keeps (f e)) \<Longrightarrow> (\<And>x. keeps (g x)) \<Longrightarrow> keeps (case s of Inl e \<Rightarrow> f e | Inr x \<Rightarrow> g x)"
  by (cases s) simp_all

lemma keeps_setup: "keeps (setup_whisper_assets env wd)"
  unfolding setup_whisper_assets_def Let_def
  by (intro keeps_intros keeps_if keeps_case_sum)


lemma node_at_update_same: "p \<noteq> [] \<Longrightarrow> node_at (AList.update p v f) p = Some v"
  by (simp add: node_at_def update_conv')

lemma pjoin_not_Nil: "pjoin d n \<noteq> []" by (simp add: pjoin_def)
lemma parent_pjoin: "parent (pjoin d n) = d" by (simp add: pjoin_def parent_def)

lemma make_dims_state:
  assumes "make_dims c = Inr d"
  shows "map_of d ''n_audio_state'' = c ''d_model''
       \<and> map_of d ''n_text_state'' = c ''d_model''
       \<and> c ''d_model'' \<noteq> None"
  using assms
  by (auto simp: make_dims_def dim_fields_def split: option.splits sum.splits)

lemma make_dims_all:
  assumes "c ''num_mel_bins'' = Some v1" "c ''max_source_positions'' = Some v2"
    "c ''d_model'' = Some v3" "c ''encoder_attention_heads'' = Some v4"
    "c ''encoder_layers'' = Some v5" "c ''vocab_size'' = Some v6"
    "c ''max_target_positions'' = Some v7" "c ''decoder_attention_heads'' = Some v8"
    "c ''decoder_layers'' = Some v9"
  shows "make_dims c = Inr [(''n_mels'', v1), (''n_audio_ctx'', v2), (''n_audio_state'', v3),
     (''n_audio_head'', v4), (''n_audio_layer'', v5), (''n_vocab'', v6), (''n_text_ctx'', v7),
     (''n_text_state'', v3), (''n_text_head'', v8), (''n_text_layer'', v9)]"
  using assms by (simp add: make_dims_def dim_fields_def)

lemma read_dims_missing:
  "a \<in> snd ` set fl \<Longrightarrow> c a = None \<Longrightarrow> \<exists>a'. read_dims c fl = Inl (AttributeError a')"
proof (induction fl)
  case Nil
  then show ?case by simp
next
  case (Cons x fl)
  obtain k b where x: "x = (k, b)" by (cases x)
  show ?case
  proof (cases "c b")
    case None
    then show ?thesis using x by simp
  next
    case (Some v)
    then have "b \<noteq> a" using Cons.prems(2) by auto
    then have "a \<in> snd ` set fl" using Cons.prems(1) x by auto
    then obtain a' where "read_dims c fl = Inl (AttributeError a')"
      using Cons.IH Cons.prems(2) by blast
    then show ?thesis using x Some by simp
  qed
qed

subsection \<open>The adaptation\<close>

lemma io_bind_Inr:
  assumes "io_bind m k w = (Inr y, w')"
  obtains x w1 where "m w = (Inr x, w1)" and "k x w1 = (Inr y, w')"
proof (cases "m w")
  case (Pair r w1)
  show ?thesis
  proof (cases r)
    case (Inl e)
    with Pair assms show ?thesis by (simp add: io_bind_def)
  next
    case (Inr x)
    with Pair assms that show ?thesis by (simp add: io_bind_def)
  qed
qed

lemma fs_op_Inr: "fs_op g w = (Inr u, w') \<Longrightarrow> \<exists>f'. g (files w) = Inr f' \<and> w' = w\<lparr>files := f'\<rparr>"
  by (auto simp: fs_op_def split: sum.splits)

lemma write_file_Inr: "write_file p d n f = Inr f' \<Longrightarrow> f' = AList.update p (File d n) f"
  by (auto simp: write_file_def split: option.splits node.splits)

lemma adapt_Inr:
  assumes "adapt env mp op wd w = (Inr cpt, w')"
  shows "\<exists>(m::model) d. make_dims (config m) = Inr d
       \<and> cpt = pjoin (parent op) ''whisper_compatible.pt''
       \<and> node_at (files w') cpt =
           Some (File (Pickle (d, state_dict m)) (pickled_size env (d, state_dict m)))"
proof -
  from assms have "\<exists>(m::model) wa. (case make_dims (config m) of
        Inl e \<Rightarrow> io_raise e
      | Inr dims \<Rightarrow>
        (let checkpoint = (dims, state_dict m);
             output_dir = parent op
         in
         io_bind (fs_op (mkdir_p output_dir)) (\<lambda>_.
         (let compatible_pt = pjoin output_dir ''whisper_compatible.pt'' in
          io_bind (logger_info [Lit ''Saving compatible checkpoint to '', Path compatible_pt,
                                Lit ''...'']) (\<lambda>_.
          io_bind (fs_op (write_file compatible_pt (Pickle checkpoint)
                            (pickled_size env checkpoint))) (\<lambda>_.
          io_ret compatible_pt)))))) wa = (Inr cpt, w')"
    unfolding adapt_def
    by - (elim io_bind_Inr, intro exI, assumption)
  then obtain m :: model and wa where
    rest: "(case make_dims (config m) of
        Inl e \<Rightarrow> io_raise e
      | Inr dims \<Rightarrow>
        (let checkpoint = (dims, state_dict m);
             output_dir = parent op
         in
         io_bind (fs_op (mkdir_p output_dir)) (\<lambda>_.
         (let compatible_pt = pjoin output_dir ''whisper_compatible.pt'' in
          io_bind (logger_info [Lit ''Saving compatible checkpoint to '', Path compatible_pt,
                                Lit ''...'']) (\<lambda>_.
          io_bind (fs_op (write_file compatible_pt (Pickle checkpoint)
                            (pickled_size env checkpoint))) (\<lambda>_.
          io_ret compatible_pt)))))) wa = (Inr cpt, w')"
    by blast
  then obtain d where d: "make_dims (config m) = Inr d"
    by (cases "make_dims (config m)") (simp_all add: io_raise_def)
  from rest d have rest': "io_bind (fs_op (mkdir_p (parent op))) (\<lambda>_.
          io_bind (logger_info [Lit ''Saving compatible checkpoint to '',
                                Path (pjoin (parent op) ''whisper_compatible.pt''),
                                Lit ''...'']) (\<lambda>_.
          io_bind (fs_op (write_file (pjoin (parent op) ''whisper_compatible.pt'')
                            (Pickle (d, state_dict m))
                            (pickled_size env (d, state_dict m)))) (\<lambda>_.
          io_ret (pjoin (parent op) ''whisper_compatible.pt'')))) wa = (Inr cpt, w')"
    by (simp add: Let_def)
  from rest' have "\<exists>wb wc u. fs_op
           (write_file (pjoin (parent op) ''whisper_compatible.pt'') (Pickle (d, state_dict m))
           (pickled_size env (d, state_dict m))) wb = (Inr u, wc)
    \<and> io_ret (pjoin (parent op) ''whisper_compatible.pt'') wc = (Inr cpt, w')"
    by - (elim io_bind_Inr, intro exI conjI, assumption+)
  then obtain wb wc u where
    wr: "fs_op (write_file (pjoin (parent op) ''whisper_compatible.pt'') (Pickle (d, state_dict m))
           (pickled_size env (d, state_dict m))) wb = (Inr u, wc)"
    and fin: "io_ret (pjoin (parent op) ''whisper_compatible.pt'') wc = (Inr cpt, w')"
    by blast
  from fin have c: "cpt = pjoin (parent op) ''whisper_compatible.pt''" and w: "w' = wc"
    by (simp_all add: io_ret_def)
  from wr obtain f' where "write_file cpt (Pickle (d, state_dict m))
        (pickled_size env (d, state_dict m)) (files wb) = Inr f'" and "wc = wb\<lparr>files := f'\<rparr>"
    unfolding c by (blast dest: fs_op_Inr)
  then have "node_at (files w') cpt =
      Some (File (Pickle (d, state_dict m)) (pickled_size env (d, state_dict m)))"
    using w c by (auto dest!: write_file_Inr simp: node_at_update_same pjoin_not_Nil)
  with d c show ?thesis by blast
qed

lemma adapt_run:
  assumes "importable env ''torch''" "importable env ''transformers''"
    and "setup_whisper_assets env wd w = (Inr (), w1)"
    and "from_pretrained env mp (files w1) = Inr m"
    and "make_dims (config m) = Inr d"
    and "mkdir_p (parent op) (files w1) = Inr f2"
    and "node_at f2 (pjoin (parent op) ''whisper_compatible.pt'') \<noteq> Some Dir"
  shows "adapt env mp op wd w =
    (Inr (pjoin (parent op) ''whisper_compatible.pt''),
     w1\<lparr>files := AList.update (pjoin (parent op) ''whisper_compatible.pt'')
                   (File (Pickle (d, state_dict m)) (pickled_size env (d, state_dict m))) f2,
        logged := logged w1 @
          [(INFO, [Lit ''Loading Hugging Face model...'']),
           (INFO, [Lit ''Creating compatible checkpoint format...'']),
           (INFO, [Lit ''Saving compatible checkpoint to '',
                   Path (pjoin (parent op) ''whisper_compatible.pt''), Lit ''...''])]\<rparr>)"
proof -
  have dir: "node_at f2 (parent op) = Some Dir" using assms(6) by (rule mkdir_p_dir)
  have wr: "write_file (pjoin (parent op) ''whisper_compatible.pt'') dd n f2 =
      Inr (AList.update (pjoin (parent op) ''whisper_compatible.pt'') (File dd n) f2)" for dd n
    using dir assms(7) by (auto simp: write_file_def parent_pjoin split: option.splits node.splits)
  show ?thesis
    unfolding adapt_def
    using assms(1-6) by (simp add: io_defs wr Let_def)
qed

lemma demo_setup:
  "setup_whisper_assets env [''whisper.cpp''] demo_world =
     (Inr (), demo_world\<lparr>logged := [(INFO, [Lit ''Whisper assets already exist''])]\<rparr>)"
  by (simp add: setup_whisper_assets_def Let_def io_exists_def io_bind_def logger_info_def
      path_exists_def node_at_def pjoin_def demo_world_def demo_files_def)

lemma demo_make_dims: "make_dims (map_of demo_config) = Inr demo_dims"
  by (simp add: make_dims_def dim_fields_def demo_config_def demo_dims_def)

lemma demo_mkdir: "mkdir_p [''out''] demo_files = Inr (demo_files @ [([''out''], Dir)])"
  by (simp add: mkdir_p_def node_at_def demo_files_def)

lemma demo_adapt:
  "adapt demo_env [''final''] [''out'', ''whisper-atc.bin''] [''whisper.cpp''] demo_world =
     (Inr [''out'', ''whisper_compatible.pt''], demo_adapted)"
proof -
  have "node_at (demo_files @ [([''out''], Dir)]) [''out'', ''whisper_compatible.pt''] = None"
    by (simp add: node_at_def demo_files_def)
  then have nd: "node_at (demo_files @ [([''out''], Dir)])
      (pjoin (parent [''out'', ''whisper-atc.bin'']) ''whisper_compatible.pt'') \<noteq> Some Dir"
    by (simp add: pjoin_def parent_def)
  have up: "AList.update [''out'', ''whisper_compatible.pt''] v (demo_files @ [([''out''], Dir)]) =
      demo_files @ [([''out''], Dir), ([''out'', ''whisper_compatible.pt''], v)]" for v
    by (simp add: demo_files_def)
  show ?thesis
    using adapt_run[of demo_env "[''whisper.cpp'']" demo_world
        "demo_world\<lparr>logged := [(INFO, [Lit ''Whisper assets already exist''])]\<rparr>"
        "[''final'']" "\<lparr>config = map_of demo_config, state_dict = []\<rparr>" demo_dims
        "[''out'', ''whisper-atc.bin'']" "demo_files @ [([''out''], Dir)]", OF _ _ demo_setup _ _ _ nd]
    by (simp add: demo_env_def demo_make_dims demo_mkdir parent_def pjoin_def demo_world_def
        demo_adapted_def up)
qed

text \<open>
  C5. When the loaded configuration has every attribute the dimension table reads, the
  adaptation succeeds (the imports, the assets, the loading and the output directory
  permitting) and the checkpoint file it writes holds a manifest of exactly the ten keys
  \<open>n_mels\<close>, \<open>n_audio_ctx\<close>, \<open>n_audio_state\<close>, \<open>n_audio_head\<close>, \<open>n_audio_layer\<close>,
  \<open>n_vocab\<close>, \<open>n_text_ctx\<close>, \<open>n_text_state\<close>, \<open>n_text_head\<close>, \<open>n_text_layer\<close>, each with
  the value of the configuration attribute it is read from. The values need not be
  positive for this.
\<close>

theorem adapt_builds_manifest:
  assumes "importable env ''torch''" and "importable env ''transformers''"
    and "setup_whisper_assets env whisper_cpp_dir w = (Inr (), w1)"
    and "from_pretrained env model_path (files w1) = Inr m"
    and "config m ''num_mel_bins'' = Some v1"
    and "config m ''max_source_positions'' = Some v2"
    and "config m ''d_model'' = Some v3"
    and "config m ''encoder_attention_heads'' = Some v4"
    and "config m ''encoder_layers'' = Some v5"
    and "config m ''vocab_size'' = Some v6"
    and "config m ''max_target_positions'' = Some v7"
    and "config m ''decoder_attention_heads'' = Some v8"
    and "config m ''decoder_layers'' = Some v9"
    and "mkdir_p (parent output_path) (files w1) = Inr f2"
    and "node_at f2 (pjoin (parent output_path) ''whisper_compatible.pt'') \<noteq> Some Dir"
  shows "\<exists>w' n.
     adapt env model_path output_path whisper_cpp_dir w =
       (Inr (pjoin (parent output_path) ''whisper_compatible.pt''), w')
     \<and> node_at (files w') (pjoin (parent output_path) ''whisper_compatible.pt'') =
         Some (File (Pickle
           ([(''n_mels'', v1), (''n_audio_ctx'', v2), (''n_audio_state'', v3),
             (''n_audio_head'', v4), (''n_audio_layer'', v5), (''n_vocab'', v6),
             (''n_text_ctx'', v7), (''n_text_state'', v3), (''n_text_head'', v8),
             (''n_text_layer'', v9)],
            state_dict m)) n)"
proof -
  let ?d = "[(''n_mels'', v1), (''n_audio_ctx'', v2), (''n_audio_state'', v3),
             (''n_audio_head'', v4), (''n_audio_layer'', v5), (''n_vocab'', v6),
             (''n_text_ctx'', v7), (''n_text_state'', v3), (''n_text_head'', v8),
             (''n_text_layer'', v9)]"
  have d: "make_dims (config m) = Inr ?d"
    using assms(5-13) by (rule make_dims_all)
  show ?thesis
    using adapt_run[OF assms(1-4) d assms(14,15)]
    by (simp add: node_at_update_same pjoin_not_Nil)
qed

theorem adapt_builds_manifest_witness:
  "\<exists>w' n.
     adapt demo_env [''final''] [''out'', ''whisper-atc.bin''] [''whisper.cpp''] demo_world =
       (Inr (pjoin (parent [''out'', ''whisper-atc.bin'']) ''whisper_compatible.pt''), w')
     \<and> node_at (files w') (pjoin (parent [''out'', ''whisper-atc.bin'']) ''whisper_compatible.pt'') =
         Some (File (Pickle
           ([(''n_mels'', 80), (''n_audio_ctx'', 1500), (''n_audio_state'', 384),
             (''n_audio_head'', 6), (''n_audio_layer'', 4), (''n_vocab'', 51864),
             (''n_text_ctx'', 448), (''n_text_state'', 384), (''n_text_head'', 6),
             (''n_text_layer'', 4)],
            state_dict \<lparr>config = map_of demo_config, state_dict = []\<rparr>)) n)"
proof -
  have nd: "node_at (demo_files @ [([''out''], Dir)])
      (pjoin (parent [''out'', ''whisper-atc.bin'']) ''whisper_compatible.pt'') \<noteq> Some Dir"
    by (simp add: pjoin_def parent_def node_at_def demo_files_def)
  have mk: "mkdir_p (parent [''out'', ''whisper-atc.bin''])
      (files (demo_world\<lparr>logged := [(INFO, [Lit ''Whisper assets already exist''])]\<rparr>)) =
      Inr (demo_files @ [([''out''], Dir)])"
    using demo_mkdir by (simp add: parent_def demo_world_def)
  show ?thesis
    by (rule adapt_builds_manifest[where m = "\<lparr>config = map_of demo_config, state_dict = []\<rparr>",
          OF _ _ demo_setup _ _ _ _ _ _ _ _ _ _ mk nd])
       (simp_all add: demo_env_def demo_config_def)
qed

text \<open>
  C9. Whenever the adaptation succeeds, the manifest in the checkpoint file it wrote has
  \<open>n_audio_state\<close> equal to \<open>n_text_state\<close>: both are the attribute \<^verbatim>\<open>d_model\<close> of the
  loaded configuration, so a manifest with two different widths is never written.
\<close>

theorem adapt_manifest_state_widths_equal:
  assumes "adapt env model_path output_path whisper_cpp_dir w = (Inr compatible_pt, w')"
  shows "\<exists>(m::model) d n.
     node_at (files w') compatible_pt = Some (File (Pickle (d, state_dict m)) n)
     \<and> make_dims (config m) = Inr d
     \<and> map_of d ''n_audio_state'' = config m ''d_model''
     \<and> map_of d ''n_text_state'' = config m ''d_model''
     \<and> map_of d ''n_audio_state'' = map_of d ''n_text_state''
     \<and> map_of d ''n_audio_state'' \<noteq> None"
proof -
  from adapt_Inr[OF assms] obtain m :: model and d where
    d: "make_dims (config m) = Inr d"
    and f: "node_at (files w') compatible_pt =
        Some (File (Pickle (d, state_dict m)) (pickled_size env (d, state_dict m)))"
    by blast
  from make_dims_state[OF d] d f show ?thesis by auto
qed

theorem adapt_manifest_state_widths_equal_witness:
  "\<exists>(m::model) d n.
     node_at (files demo_adapted) [''out'', ''whisper_compatible.pt''] =
       Some (File (Pickle (d, state_dict m)) n)
     \<and> make_dims (config m) = Inr d
     \<and> map_of d ''n_audio_state'' = config m ''d_model''
     \<and> map_of d ''n_text_state'' = config m ''d_model''
     \<and> map_of d ''n_audio_state'' = map_of d ''n_text_state''
     \<and> map_of d ''n_audio_state'' \<noteq> None"
  by (rule adapt_manifest_state_widths_equal[OF demo_adapt])

subsection \<open>A configuration that lacks a dimension\<close>

lemma adapt_missing_attribute:
  assumes hyp: "\<forall>f (m::model). from_pretrained env model_path f = Inr m
                  \<longrightarrow> (\<exists>a \<in> snd ` set dim_fields. config m a = None)"
  shows "\<exists>e w1. adapt env model_path output_path whisper_cpp_dir w = (Inl e, w1) \<and> quiet w w1"
proof (cases "importable env ''torch'' \<and> importable env ''transformers''")
  case False
  then have "\<exists>e. adapt env model_path output_path whisper_cpp_dir w = (Inl e, w)"
    by (auto simp: adapt_def io_defs)
  then show ?thesis using quiet_refl by blast
next
  case True
  obtain r w1 where su: "setup_whisper_assets env whisper_cpp_dir w = (r, w1)"
    by (cases "setup_whisper_assets env whisper_cpp_dir w")
  have q: "quiet w w1" using keeps_setup[of env whisper_cpp_dir] su
    unfolding keeps_def by (metis snd_conv)
  show ?thesis
  proof (cases r)
    case (Inl e)
    then have "adapt env model_path output_path whisper_cpp_dir w = (Inl e, w1)"
      using True su by (simp add: adapt_def io_defs)
    then show ?thesis using q by blast
  next
    case (Inr u)
    let ?w2 = "w1\<lparr>logged := logged w1 @ [(INFO, [Lit ''Loading Hugging Face model...''])]\<rparr>"
    have q2: "quiet w ?w2" using q by (simp add: quiet_def)
    show ?thesis
    proof (cases "from_pretrained env model_path (files w1)")
      case (Inl e)
      then have "adapt env model_path output_path whisper_cpp_dir w = (Inl e, ?w2)"
        using True su Inr by (simp add: adapt_def io_defs)
      then show ?thesis using q2 by blast
    next
      case m: (Inr m)
      from hyp[rule_format, OF m] obtain a where "a \<in> snd ` set dim_fields" and "config m a = None"
        by blast
      then obtain a' where "make_dims (config m) = Inl (AttributeError a')"
        unfolding make_dims_def using read_dims_missing by blast
      then have "adapt env model_path output_path whisper_cpp_dir w =
          (Inl (AttributeError a'),
           ?w2\<lparr>logged := logged ?w2 @
              [(INFO, [Lit ''Creating compatible checkpoint format...''])]\<rparr>)"
        using True su Inr m by (simp add: adapt_def io_defs)
      moreover have "quiet w (?w2\<lparr>logged := logged ?w2 @
              [(INFO, [Lit ''Creating compatible checkpoint format...''])]\<rparr>)"
        using q by (simp add: quiet_def)
      ultimately show ?thesis by blast
    qed
  qed
qed

text \<open>
  C1, as the code has it. The code has no check of the values: it only reads the
  attributes. When the loaded configuration lacks an attribute that the dimension table
  reads, the adaptation raises, \<open>convert_hf_to_ggml\<close> raises its \<^verbatim>\<open>RuntimeError\<close>, no
  subprocess is started, and no checkpoint file is left that was not there before.
\<close>

theorem convert_missing_dimension:
  assumes "\<forall>f (m::model). from_pretrained env model_path f = Inr m
               \<longrightarrow> (\<exists>a \<in> snd ` set dim_fields. config m a = None)"
  shows "(\<exists>e w1. adapt env model_path output_path whisper_cpp_dir w = (Inl e, w1)
            \<and> set (checkpoint_files (files w1)) \<subseteq> set (checkpoint_files (files w))
            \<and> procs w1 = procs w)
       \<and> (\<exists>w'. convert_hf_to_ggml env model_path output_path whisper_cpp_dir w =
              (Inl (RuntimeError [Lit ''Failed to convert model to GGML format'']), w')
            \<and> set (checkpoint_files (files w')) \<subseteq> set (checkpoint_files (files w))
            \<and> procs w' = procs w)"
proof
  from adapt_missing_attribute[OF assms, where output_path = output_path
      and whisper_cpp_dir = whisper_cpp_dir and w = w]
  show "\<exists>e w1. adapt env model_path output_path whisper_cpp_dir w = (Inl e, w1)
            \<and> set (checkpoint_files (files w1)) \<subseteq> set (checkpoint_files (files w))
            \<and> procs w1 = procs w"
    by (simp add: quiet_def)
next
  let ?w0 = "w\<lparr>logged := logged w @
      [(INFO, [Lit ''Converting '', Path model_path, Lit '' to GGML format...''])]\<rparr>"
  from adapt_missing_attribute[OF assms, where output_path = output_path
      and whisper_cpp_dir = whisper_cpp_dir and w = ?w0]
  obtain e w1 where a: "adapt env model_path output_path whisper_cpp_dir ?w0 = (Inl e, w1)"
    and q: "quiet ?w0 w1" by blast
  have "convert_hf_to_ggml env model_path output_path whisper_cpp_dir w =
      (Inl (RuntimeError [Lit ''Failed to convert model to GGML format'']),
       w1\<lparr>logged := logged w1 @ [(ERROR, [Lit ''Failed to convert model: '', Exn e])]\<rparr>)"
    using a by (simp add: convert_hf_to_ggml_def io_defs is_Exception_def)
  moreover have "set (checkpoint_files (files w1)) \<subseteq> set (checkpoint_files (files w))"
    and "procs w1 = procs w"
    using q by (simp_all add: quiet_def)
  ultimately show "\<exists>w'. convert_hf_to_ggml env model_path output_path whisper_cpp_dir w =
              (Inl (RuntimeError [Lit ''Failed to convert model to GGML format'']), w')
            \<and> set (checkpoint_files (files w')) \<subseteq> set (checkpoint_files (files w))
            \<and> procs w' = procs w"
    by simp
qed

theorem convert_missing_dimension_witness:
  "(\<exists>e w1. adapt partial_env [''final''] [''out'', ''whisper-atc.bin''] [''whisper.cpp'']
              demo_world = (Inl e, w1)
            \<and> set (checkpoint_files (files w1)) \<subseteq> set (checkpoint_files (files demo_world))
            \<and> procs w1 = procs demo_world)
   \<and> (\<exists>w'. convert_hf_to_ggml partial_env [''final''] [''out'', ''whisper-atc.bin'']
              [''whisper.cpp''] demo_world =
              (Inl (RuntimeError [Lit ''Failed to convert model to GGML format'']), w')
            \<and> set (checkpoint_files (files w')) \<subseteq> set (checkpoint_files (files demo_world))
            \<and> procs w' = procs demo_world)"
proof (rule convert_missing_dimension, intro allI impI)
  fix f and m :: model
  assume "from_pretrained partial_env [''final''] f = Inr m"
  then have "config m ''vocab_size'' = None"
    by (auto simp: partial_env_def demo_env_def)
  then show "\<exists>a \<in> snd ` set dim_fields. config m a = None"
    by (simp add: dim_fields_def)
qed

text \<open>
  The claim as stated fails at a zero: a configuration with zero mel bins is adapted like
  any other, and the checkpoint file is written with \<open>n_mels = 0\<close> in its manifest.
\<close>

theorem convert_missing_dimension_counterexample:
  "from_pretrained zero_env [''final''] demo_files =
     Inr \<lparr>config = (map_of demo_config)(''num_mel_bins'' \<mapsto> 0), state_dict = []\<rparr>
   \<and> fst (adapt zero_env [''final''] [''out'', ''whisper-atc.bin''] [''whisper.cpp''] demo_world) =
     Inr [''out'', ''whisper_compatible.pt'']
   \<and> node_at (files (snd (adapt zero_env [''final''] [''out'', ''whisper-atc.bin'']
                            [''whisper.cpp''] demo_world)))
       [''out'', ''whisper_compatible.pt''] =
     Some (File (Pickle
       ([(''n_mels'', 0), (''n_audio_ctx'', 1500), (''n_audio_state'', 384),
         (''n_audio_head'', 6), (''n_audio_layer'', 4), (''n_vocab'', 51864),
         (''n_text_ctx'', 448), (''n_text_state'', 384), (''n_text_head'', 6),
         (''n_text_layer'', 4)], [])) 5000000)
   \<and> node_at (files demo_world) [''out'', ''whisper_compatible.pt''] = None"
proof -
  let ?m = "\<lparr>config = (map_of demo_config)(''num_mel_bins'' \<mapsto> 0), state_dict = []\<rparr>"
  let ?d = "[(''n_mels'', 0), (''n_audio_ctx'', 1500), (''n_audio_state'', 384),
         (''n_audio_head'', 6), (''n_audio_layer'', 4), (''n_vocab'', 51864),
         (''n_text_ctx'', 448), (''n_text_state'', 384), (''n_text_head'', 6),
         (''n_text_layer'', 4)] :: dims"
  have nd: "node_at (demo_files @ [([''out''], Dir)])
      (pjoin (parent [''out'', ''whisper-atc.bin'']) ''whisper_compatible.pt'') \<noteq> Some Dir"
    by (simp add: pjoin_def parent_def node_at_def demo_files_def)
  have mk: "mkdir_p (parent [''out'', ''whisper-atc.bin''])
      (files (demo_world\<lparr>logged := [(INFO, [Lit ''Whisper assets already exist''])]\<rparr>)) =
      Inr (demo_files @ [([''out''], Dir)])"
    using demo_mkdir by (simp add: parent_def demo_world_def)
  have d: "make_dims (config ?m) = Inr ?d"
    by (simp add: make_dims_def dim_fields_def demo_config_def)
  have ld: "from_pretrained zero_env [''final'']
      (files (demo_world\<lparr>logged := [(INFO, [Lit ''Whisper assets already exist''])]\<rparr>)) = Inr ?m"
    by (simp add: zero_env_def demo_env_def)
  have i1: "importable zero_env ''torch''" and i2: "importable zero_env ''transformers''"
    by (simp_all add: zero_env_def demo_env_def)
  have ps: "pickled_size zero_env c = 5000000" for c
    by (simp add: zero_env_def demo_env_def)
  from adapt_run[OF i1 i2 demo_setup ld d mk nd]
  have "fst (adapt zero_env [''final''] [''out'', ''whisper-atc.bin''] [''whisper.cpp''] demo_world) =
     Inr [''out'', ''whisper_compatible.pt'']"
   and "node_at (files (snd (adapt zero_env [''final''] [''out'', ''whisper-atc.bin'']
                            [''whisper.cpp''] demo_world)))
       [''out'', ''whisper_compatible.pt''] = Some (File (Pickle (?d, [])) 5000000)"
    by (simp_all add: pjoin_def parent_def node_at_update_same ps)
  moreover have "node_at (files demo_world) [''out'', ''whisper_compatible.pt''] = None"
    by (simp add: node_at_def demo_world_def demo_files_def)
  moreover have "from_pretrained zero_env [''final''] demo_files = Inr ?m"
    by (simp add: zero_env_def demo_env_def)
  ultimately show ?thesis by simp
qed

subsection \<open>The converter subprocess\<close>

lemma run_converter_fails:
  assumes "path_exists (files w) (pjoin (pjoin wd ''models'') ''convert-pt-to-ggml.py'')"
    and "spawn env [Lit (sys_executable env),
                    Path (pjoin (pjoin wd ''models'') ''convert-pt-to-ggml.py''),
                    Path cpt, Path wd, Path od, Lit ''use-f32''] [] (files w) = Inr (r, f2)"
    and "returncode r \<noteq> 0"
  shows "run_converter env cpt wd od w =
     (Inl (RuntimeError [Lit ''Failed to convert model to GGML format'']),
      \<lparr>files = f2,
       logged = logged w @
         [(INFO, [Lit ''Using conversion script: '',
                  Path (pjoin (pjoin wd ''models'') ''convert-pt-to-ggml.py'')]),
          (INFO, [Lit ''Converting compatible checkpoint...'']),
          (ERROR, [Lit ''Conversion failed:'']),
          (ERROR, [Lit ''stderr: '', Lit (stderr r)]),
          (ERROR, [Lit ''stdout: '', Lit (stdout r)])],
       procs = procs w @
         [([Lit (sys_executable env),
            Path (pjoin (pjoin wd ''models'') ''convert-pt-to-ggml.py''),
            Path cpt, Path wd, Path od, Lit ''use-f32''], [])]\<rparr>)"
  using assms by (simp add: run_converter_def Let_def io_defs)

lemma run_converter_succeeds:
  assumes "path_exists (files w) (pjoin (pjoin wd ''models'') ''convert-pt-to-ggml.py'')"
    and "spawn env [Lit (sys_executable env),
                    Path (pjoin (pjoin wd ''models'') ''convert-pt-to-ggml.py''),
                    Path cpt, Path wd, Path od, Lit ''use-f32''] [] (files w) = Inr (r, f2)"
    and "returncode r = 0"
  shows "run_converter env cpt wd od w =
     (Inr (),
      \<lparr>files = f2,
       logged = logged w @
         [(INFO, [Lit ''Using conversion script: '',
                  Path (pjoin (pjoin wd ''models'') ''convert-pt-to-ggml.py'')]),
          (INFO, [Lit ''Converting compatible checkpoint...''])],
       procs = procs w @
         [([Lit (sys_executable env),
            Path (pjoin (pjoin wd ''models'') ''convert-pt-to-ggml.py''),
            Path cpt, Path wd, Path od, Lit ''use-f32''], [])]\<rparr>)"
  using assms by (simp add: run_converter_def Let_def io_defs)

lemma convert_hf_nonzero_exit:
  assumes "adapt env model_path output_path wd
             (w\<lparr>logged := logged w @
                [(INFO, [Lit ''Converting '', Path model_path, Lit '' to GGML format...''])]\<rparr>) =
           (Inr cpt, w1)"
    and "path_exists (files w1) (pjoin (pjoin wd ''models'') ''convert-pt-to-ggml.py'')"
    and "spawn env [Lit (sys_executable env),
                    Path (pjoin (pjoin wd ''models'') ''convert-pt-to-ggml.py''),
                    Path cpt, Path wd, Path (parent output_path), Lit ''use-f32''] []
           (files w1) = Inr (r, f2)"
    and "returncode r \<noteq> 0"
  shows "convert_hf_to_ggml env model_path output_path wd w =
     (Inl (RuntimeError [Lit ''Failed to convert model to GGML format'']),
      \<lparr>files = f2,
       logged = logged w1 @
         [(INFO, [Lit ''Using conversion script: '',
                  Path (pjoin (pjoin wd ''models'') ''convert-pt-to-ggml.py'')]),
          (INFO, [Lit ''Converting compatible checkpoint...'']),
          (ERROR, [Lit ''Conversion failed:'']),
          (ERROR, [Lit ''stderr: '', Lit (stderr r)]),
          (ERROR, [Lit ''stdout: '', Lit (stdout r)]),
          (ERROR, [Lit ''Failed to convert model: '',
                   Exn (RuntimeError [Lit ''Failed to convert model to GGML format''])])],
       procs = procs w1 @
         [([Lit (sys_executable env),
            Path (pjoin (pjoin wd ''models'') ''convert-pt-to-ggml.py''),
            Path cpt, Path wd, Path (parent output_path), Lit ''use-f32''], [])]\<rparr>)"
  using assms(1) run_converter_fails[OF assms(2-4)]
  by (simp add: convert_hf_to_ggml_def convert_def io_bind_def io_catch_def logger_info_def
      logger_error_def io_raise_def is_Exception_def)

lemma demo_files_setup:
  "files w = demo_files \<Longrightarrow>
   setup_whisper_assets env [''whisper.cpp''] w =
     (Inr (), w\<lparr>logged := logged w @ [(INFO, [Lit ''Whisper assets already exist''])]\<rparr>)"
  by (simp add: setup_whisper_assets_def Let_def io_exists_def io_bind_def logger_info_def
      path_exists_def node_at_def pjoin_def demo_files_def)

lemma demo_converting_adapt:
  assumes "importable env ''torch''" and "importable env ''transformers''"
    and "\<And>f. from_pretrained env [''final''] f = Inr \<lparr>config = map_of demo_config, state_dict = []\<rparr>"
    and "\<And>c. pickled_size env c = 5000000"
  shows "adapt env [''final''] [''out'', ''whisper-atc.bin''] [''whisper.cpp'']
      (demo_world\<lparr>logged := logged demo_world @
         [(INFO, [Lit ''Converting '', Path [''final''], Lit '' to GGML format...''])]\<rparr>) =
     (Inr [''out'', ''whisper_compatible.pt''], demo_converting)"
proof -
  let ?w0 = "demo_world\<lparr>logged := logged demo_world @
         [(INFO, [Lit ''Converting '', Path [''final''], Lit '' to GGML format...''])]\<rparr>"
  let ?w1 = "?w0\<lparr>logged := logged ?w0 @ [(INFO, [Lit ''Whisper assets already exist''])]\<rparr>"
  have su: "setup_whisper_assets env [''whisper.cpp''] ?w0 = (Inr (), ?w1)"
    by (rule demo_files_setup) (simp add: demo_world_def)
  have ld: "from_pretrained env [''final''] (files ?w1) =
      Inr \<lparr>config = map_of demo_config, state_dict = []\<rparr>"
    by (rule assms(3))
  have d: "make_dims (config \<lparr>config = map_of demo_config, state_dict = []\<rparr>) = Inr demo_dims"
    using demo_make_dims by simp
  have mk: "mkdir_p (parent [''out'', ''whisper-atc.bin'']) (files ?w1) =
      Inr (demo_files @ [([''out''], Dir)])"
    using demo_mkdir by (simp add: parent_def demo_world_def)
  have nd: "node_at (demo_files @ [([''out''], Dir)])
      (pjoin (parent [''out'', ''whisper-atc.bin'']) ''whisper_compatible.pt'') \<noteq> Some Dir"
    by (simp add: pjoin_def parent_def node_at_def demo_files_def)
  have up: "AList.update [''out'', ''whisper_compatible.pt''] v (demo_files @ [([''out''], Dir)]) =
      demo_files @ [([''out''], Dir), ([''out'', ''whisper_compatible.pt''], v)]" for v
    by (simp add: demo_files_def)
  show ?thesis
    using adapt_run[OF assms(1,2) su ld d mk nd]
    by (simp add: assms(4) parent_def pjoin_def demo_world_def demo_converting_def
        demo_adapted_def up)
qed

text \<open>
  C2, as the code has it. When the adaptation has succeeded and the converter subprocess
  exits with a status other than zero, \<open>convert_hf_to_ggml\<close> raises the
  \<^verbatim>\<open>RuntimeError\<close> with its fixed message. The captured standard error and standard
  output are written to the log, not put into the exception. Nothing is removed: the
  files are left as the subprocess left them, so the checkpoint file of the adaptation is
  still there unless the subprocess itself touched it.
\<close>

theorem convert_nonzero_exit:
  assumes "adapt env model_path output_path wd
             (w\<lparr>logged := logged w @
                [(INFO, [Lit ''Converting '', Path model_path, Lit '' to GGML format...''])]\<rparr>) =
           (Inr cpt, w1)"
    and "path_exists (files w1) (pjoin (pjoin wd ''models'') ''convert-pt-to-ggml.py'')"
    and "spawn env [Lit (sys_executable env),
                    Path (pjoin (pjoin wd ''models'') ''convert-pt-to-ggml.py''),
                    Path cpt, Path wd, Path (parent output_path), Lit ''use-f32''] []
           (files w1) = Inr (r, f2)"
    and "returncode r \<noteq> 0"
  shows "\<exists>w'. convert_hf_to_ggml env model_path output_path wd w =
            (Inl (RuntimeError [Lit ''Failed to convert model to GGML format'']), w')
     \<and> files w' = f2
     \<and> logged w' = logged w1 @
         [(INFO, [Lit ''Using conversion script: '',
                  Path (pjoin (pjoin wd ''models'') ''convert-pt-to-ggml.py'')]),
          (INFO, [Lit ''Converting compatible checkpoint...'']),
          (ERROR, [Lit ''Conversion failed:'']),
          (ERROR, [Lit ''stderr: '', Lit (stderr r)]),
          (ERROR, [Lit ''stdout: '', Lit (stdout r)]),
          (ERROR, [Lit ''Failed to convert model: '',
                   Exn (RuntimeError [Lit ''Failed to convert model to GGML format''])])]
     \<and> (\<exists>d sd n. node_at (files w1) cpt = Some (File (Pickle (d, sd)) n))
     \<and> (node_at f2 cpt = node_at (files w1) cpt \<longrightarrow>
          (\<exists>d sd n. node_at (files w') cpt = Some (File (Pickle (d, sd)) n)))"
proof -
  from adapt_Inr[OF assms(1)]
  have "\<exists>d sd n. node_at (files w1) cpt = Some (File (Pickle (d, sd)) n)" by blast
  then show ?thesis
    using convert_hf_nonzero_exit[OF assms] by simp
qed

theorem convert_nonzero_exit_witness:
  "\<exists>w'. convert_hf_to_ggml failing_env [''final''] [''out'', ''whisper-atc.bin'']
            [''whisper.cpp''] demo_world =
            (Inl (RuntimeError [Lit ''Failed to convert model to GGML format'']), w')
     \<and> files w' = files demo_converting
     \<and> logged w' = logged demo_converting @
         [(INFO, [Lit ''Using conversion script: '',
                  Path (pjoin (pjoin [''whisper.cpp''] ''models'') ''convert-pt-to-ggml.py'')]),
          (INFO, [Lit ''Converting compatible checkpoint...'']),
          (ERROR, [Lit ''Conversion failed:'']),
          (ERROR, [Lit ''stderr: '', Lit (stderr (exited 1))]),
          (ERROR, [Lit ''stdout: '', Lit (stdout (exited 1))]),
          (ERROR, [Lit ''Failed to convert model: '',
                   Exn (RuntimeError [Lit ''Failed to convert model to GGML format''])])]
     \<and> (\<exists>d sd n. node_at (files demo_converting) [''out'', ''whisper_compatible.pt''] =
            Some (File (Pickle (d, sd)) n))
     \<and> (node_at (files demo_converting) [''out'', ''whisper_compatible.pt''] =
          node_at (files demo_converting) [''out'', ''whisper_compatible.pt''] \<longrightarrow>
          (\<exists>d sd n. node_at (files w') [''out'', ''whisper_compatible.pt''] =
             Some (File (Pickle (d, sd)) n)))"
proof (rule convert_nonzero_exit)
  show "adapt failing_env [''final''] [''out'', ''whisper-atc.bin''] [''whisper.cpp'']
      (demo_world\<lparr>logged := logged demo_world @
         [(INFO, [Lit ''Converting '', Path [''final''], Lit '' to GGML format...''])]\<rparr>) =
     (Inr [''out'', ''whisper_compatible.pt''], demo_converting)"
    by (rule demo_converting_adapt) (simp_all add: failing_env_def demo_env_def)
  show "path_exists (files demo_converting)
      (pjoin (pjoin [''whisper.cpp''] ''models'') ''convert-pt-to-ggml.py'')"
    by (simp add: demo_converting_def demo_adapted_def demo_files_def path_exists_def
        node_at_def pjoin_def)
  show "spawn failing_env [Lit (sys_executable failing_env),
      Path (pjoin (pjoin [''whisper.cpp''] ''models'') ''convert-pt-to-ggml.py''),
      Path [''out'', ''whisper_compatible.pt''], Path [''whisper.cpp''],
      Path (parent [''out'', ''whisper-atc.bin'']), Lit ''use-f32''] []
      (files demo_converting) = Inr (exited 1, files demo_converting)"
    by (simp add: failing_env_def)
  show "returncode (exited 1) \<noteq> 0" by (simp add: exited_def)
qed

text \<open>
  The claim as stated fails on the worked installation with the failing toolchain: the
  converter exits with status 1 having printed to both streams, the exception carries
  only the fixed message, and \<^verbatim>\<open>whisper_compatible.pt\<close> is still on disk.
\<close>

theorem convert_nonzero_exit_counterexample:
  "fst (convert_hf_to_ggml failing_env [''final''] [''out'', ''whisper-atc.bin'']
          [''whisper.cpp''] demo_world) =
     Inl (RuntimeError [Lit ''Failed to convert model to GGML format''])
   \<and> node_at (files (snd (convert_hf_to_ggml failing_env [''final'']
          [''out'', ''whisper-atc.bin''] [''whisper.cpp''] demo_world)))
       [''out'', ''whisper_compatible.pt''] =
     Some (File (Pickle (demo_dims, [])) 5000000)
   \<and> procs (snd (convert_hf_to_ggml failing_env [''final'']
          [''out'', ''whisper-atc.bin''] [''whisper.cpp''] demo_world)) =
     [([Lit ''python3'', Path [''whisper.cpp'', ''models'', ''convert-pt-to-ggml.py''],
        Path [''out'', ''whisper_compatible.pt''], Path [''whisper.cpp''], Path [''out''],
        Lit ''use-f32''], [])]
   \<and> stdout (exited 1) = ''out'' \<and> stderr (exited 1) = ''err''"
proof -
  have a: "adapt failing_env [''final''] [''out'', ''whisper-atc.bin''] [''whisper.cpp'']
      (demo_world\<lparr>logged := logged demo_world @
         [(INFO, [Lit ''Converting '', Path [''final''], Lit '' to GGML format...''])]\<rparr>) =
     (Inr [''out'', ''whisper_compatible.pt''], demo_converting)"
    by (rule demo_converting_adapt) (simp_all add: failing_env_def demo_env_def)
  have e: "path_exists (files demo_converting)
      (pjoin (pjoin [''whisper.cpp''] ''models'') ''convert-pt-to-ggml.py'')"
    by (simp add: demo_converting_def demo_adapted_def demo_files_def path_exists_def
        node_at_def pjoin_def)
  have s: "spawn failing_env [Lit (sys_executable failing_env),
      Path (pjoin (pjoin [''whisper.cpp''] ''models'') ''convert-pt-to-ggml.py''),
      Path [''out'', ''whisper_compatible.pt''], Path [''whisper.cpp''],
      Path (parent [''out'', ''whisper-atc.bin'']), Lit ''use-f32''] []
      (files demo_converting) = Inr (exited 1, files demo_converting)"
    by (simp add: failing_env_def)
  have r: "returncode (exited 1) \<noteq> 0" by (simp add: exited_def)
  have n: "node_at (files demo_converting) [''out'', ''whisper_compatible.pt''] =
      Some (File (Pickle (demo_dims, [])) 5000000)"
    by (simp add: demo_converting_def demo_adapted_def demo_files_def node_at_def)
  have p: "procs demo_converting = []"
    by (simp add: demo_converting_def demo_adapted_def)
  show ?thesis
    using convert_hf_nonzero_exit[OF a e s r] n p
    by (simp add: exited_def failing_env_def demo_env_def pjoin_def parent_def)
qed

subsection \<open>The quantizer must be there\<close>

text \<open>
  C6. When the quantize binary is absent from the toolchain directory, \<open>quantize_model\<close>
  raises its \<^verbatim>\<open>RuntimeError\<close> at once: no result mapping is returned, and the world is
  the one it was given, so no subprocess was started for any of the three precisions and
  nothing was logged or written.
\<close>

theorem quantize_model_missing_binary:
  assumes "\<not> path_exists (files w)
             (pjoin (pjoin (pjoin whisper_cpp_dir ''build'') ''bin'') ''quantize'')"
  shows "quantize_model env ggml_path output_dir whisper_cpp_dir w =
           (Inl (RuntimeError [Lit ''Quantize binary not found: '',
                  Path (pjoin (pjoin (pjoin whisper_cpp_dir ''build'') ''bin'') ''quantize'')]),
            w)"
  using assms by (simp add: quantize_model_def io_defs Let_def)

theorem quantize_model_missing_binary_witness:
  "quantize_model demo_env [''out'', ''whisper-atc.bin''] [''out''] [''whisper.cpp'']
     empty_world =
   (Inl (RuntimeError [Lit ''Quantize binary not found: '',
          Path (pjoin (pjoin (pjoin [''whisper.cpp''] ''build'') ''bin'') ''quantize'')]),
    empty_world)"
  using quantize_model_missing_binary
    [of empty_world "[''whisper.cpp'']" demo_env "[''out'', ''whisper-atc.bin'']" "[''out'']"]
  by (simp add: path_exists_def node_at_def pjoin_def empty_world_def)

subsection \<open>One level fails\<close>

lemma quantize_step:
  assumes sp: "spawn env [Path qb, Path g, Path (pjoin od (quantized_name l)), Lit l] [] f
               = Inr (r, f')"
    and fw: "files w = f"
    and st: "returncode r = 0 \<longrightarrow>
             stat_size (dir_size env) (pjoin od (quantized_name l)) f' = Inr n"
  shows "quantize_loop env qb g od ((l, dsc) # rest) res w =
     quantize_loop env qb g od rest
       (if returncode r = 0
        then AList.update l
               \<lparr>art_path = pjoin od (quantized_name l), size_mb = round_tenths n\<rparr> res
        else res)
       \<lparr>files = f',
        logged = logged w @
          [(INFO, [Lit ''Quantizing to '', Lit l, Lit '' ('', Lit dsc, Lit '')...'']),
           if returncode r = 0
           then (INFO, [Lit l, Lit '': '', Tenths (round_tenths n), Lit '' MB''])
           else (ERROR, [Lit ''Failed to quantize to '', Lit l])],
        procs = procs w @
          [([Path qb, Path g, Path (pjoin od (quantized_name l)), Lit l], [])]\<rparr>"
proof (cases "returncode r = 0")
  case True
  then have "stat_size (dir_size env) (pjoin od (quantized_name l)) f' = Inr n"
    using st by simp
  then show ?thesis
    using sp fw True by (cases w) (simp add: io_defs Let_def)
next
  case False
  then show ?thesis
    using sp fw by (cases w) (simp add: io_defs Let_def)
qed

lemma quantize_run:
  fixes r1 r2 r3 :: completed
  assumes bin: "path_exists (files w)
                  (pjoin (pjoin (pjoin whisper_cpp_dir ''build'') ''bin'') ''quantize'')"
    and s1: "spawn env (quantize_call whisper_cpp_dir ggml_path output_dir ''q8_0'') []
               (files w) = Inr (r1, f1)"
    and s2: "spawn env (quantize_call whisper_cpp_dir ggml_path output_dir ''q5_0'') []
               f1 = Inr (r2, f2)"
    and s3: "spawn env (quantize_call whisper_cpp_dir ggml_path output_dir ''q4_0'') []
               f2 = Inr (r3, f3)"
    and st1: "returncode r1 = 0 \<longrightarrow>
              stat_size (dir_size env) (pjoin output_dir (quantized_name ''q8_0'')) f1 = Inr n1"
    and st2: "returncode r2 = 0 \<longrightarrow>
              stat_size (dir_size env) (pjoin output_dir (quantized_name ''q5_0'')) f2 = Inr n2"
    and st3: "returncode r3 = 0 \<longrightarrow>
              stat_size (dir_size env) (pjoin output_dir (quantized_name ''q4_0'')) f3 = Inr n3"
  shows "fst (quantize_model env ggml_path output_dir whisper_cpp_dir w) =
           Inr (map (\<lambda>(l, r, n). (l, \<lparr>art_path = pjoin output_dir (quantized_name l),
                                      size_mb = round_tenths n\<rparr>))
                  (filter (\<lambda>(l, r, n). returncode r = 0)
                     [(''q8_0'', r1, n1), (''q5_0'', r2, n2), (''q4_0'', r3, n3)]))"
    and "procs (snd (quantize_model env ggml_path output_dir whisper_cpp_dir w)) =
           procs w @
             [(quantize_call whisper_cpp_dir ggml_path output_dir ''q8_0'', []),
              (quantize_call whisper_cpp_dir ggml_path output_dir ''q5_0'', []),
              (quantize_call whisper_cpp_dir ggml_path output_dir ''q4_0'', [])]"
    and "files (snd (quantize_model env ggml_path output_dir whisper_cpp_dir w)) = f3"
    and "set (map (\<lambda>(l, r, n). (ERROR, [Lit ''Failed to quantize to '', Lit l]))
                (filter (\<lambda>(l, r, n). returncode r \<noteq> 0)
                   [(''q8_0'', r1, n1), (''q5_0'', r2, n2), (''q4_0'', r3, n3)]))
           \<subseteq> set (logged (snd (quantize_model env ggml_path output_dir whisper_cpp_dir w)))"
proof -
  let ?qb = "pjoin (pjoin (pjoin whisper_cpp_dir ''build'') ''bin'') ''quantize''"
  let ?L = "quantize_loop env ?qb ggml_path output_dir"
  let ?a = "\<lambda>l n. \<lparr>art_path = pjoin output_dir (quantized_name l), size_mb = round_tenths n\<rparr>"
  let ?c = "\<lambda>l. ([Path ?qb, Path ggml_path, Path (pjoin output_dir (quantized_name l)), Lit l],
                  [] :: path)"
  let ?m = "\<lambda>l dsc (r :: completed) n.
              [(INFO, [Lit ''Quantizing to '', Lit l, Lit '' ('', Lit dsc, Lit '')...'']),
               if returncode r = 0
               then (INFO, [Lit l, Lit '': '', Tenths (round_tenths n), Lit '' MB''])
               else (ERROR, [Lit ''Failed to quantize to '', Lit l])]"
  let ?res1 = "if returncode r1 = 0 then AList.update ''q8_0'' (?a ''q8_0'' n1) [] else []"
  let ?res2 = "if returncode r2 = 0 then AList.update ''q5_0'' (?a ''q5_0'' n2) ?res1 else ?res1"
  let ?res3 = "if returncode r3 = 0 then AList.update ''q4_0'' (?a ''q4_0'' n3) ?res2 else ?res2"
  let ?w1 = "\<lparr>files = f1,
              logged = logged w @ ?m ''q8_0'' ''Best quality quantized'' r1 n1,
              procs = procs w @ [?c ''q8_0'']\<rparr>"
  let ?w2 = "\<lparr>files = f2,
              logged = logged ?w1 @ ?m ''q5_0'' ''Good balance'' r2 n2,
              procs = procs ?w1 @ [?c ''q5_0'']\<rparr>"
  let ?w3 = "\<lparr>files = f3,
              logged = logged ?w2 @ ?m ''q4_0'' ''Smallest size'' r3 n3,
              procs = procs ?w2 @ [?c ''q4_0'']\<rparr>"
  have "quantize_model env ggml_path output_dir whisper_cpp_dir w =
        ?L [(''q8_0'', ''Best quality quantized''), (''q5_0'', ''Good balance''),
            (''q4_0'', ''Smallest size'')] [] w"
    using bin by (simp add: quantize_model_def quantizations_def io_defs Let_def)
  also have "\<dots> = ?L [(''q5_0'', ''Good balance''), (''q4_0'', ''Smallest size'')] ?res1 ?w1"
    by (rule quantize_step[OF s1[unfolded quantize_call_def] refl st1])
  also have "\<dots> = ?L [(''q4_0'', ''Smallest size'')] ?res2 ?w2"
    by (rule quantize_step[OF s2[unfolded quantize_call_def] _ st2]) simp
  also have "\<dots> = ?L [] ?res3 ?w3"
    by (rule quantize_step[OF s3[unfolded quantize_call_def] _ st3]) simp
  also have "\<dots> = (Inr ?res3, ?w3)" by (simp add: io_ret_def)
  finally have run: "quantize_model env ggml_path output_dir whisper_cpp_dir w = (Inr ?res3, ?w3)" .
  show "fst (quantize_model env ggml_path output_dir whisper_cpp_dir w) =
           Inr (map (\<lambda>(l, r, n). (l, \<lparr>art_path = pjoin output_dir (quantized_name l),
                                      size_mb = round_tenths n\<rparr>))
                  (filter (\<lambda>(l, r, n). returncode r = 0)
                     [(''q8_0'', r1, n1), (''q5_0'', r2, n2), (''q4_0'', r3, n3)]))"
    unfolding run by simp
  show "procs (snd (quantize_model env ggml_path output_dir whisper_cpp_dir w)) =
           procs w @
             [(quantize_call whisper_cpp_dir ggml_path output_dir ''q8_0'', []),
              (quantize_call whisper_cpp_dir ggml_path output_dir ''q5_0'', []),
              (quantize_call whisper_cpp_dir ggml_path output_dir ''q4_0'', [])]"
    unfolding run by (simp add: quantize_call_def)
  show "files (snd (quantize_model env ggml_path output_dir whisper_cpp_dir w)) = f3"
    unfolding run by simp
  show "set (map (\<lambda>(l, r, n). (ERROR, [Lit ''Failed to quantize to '', Lit l]))
                (filter (\<lambda>(l, r, n). returncode r \<noteq> 0)
                   [(''q8_0'', r1, n1), (''q5_0'', r2, n2), (''q4_0'', r3, n3)]))
           \<subseteq> set (logged (snd (quantize_model env ggml_path output_dir whisper_cpp_dir w)))"
    unfolding run by simp
qed

lemma demo_adapted_quantizer:
  "path_exists (files demo_adapted)
     (pjoin (pjoin (pjoin [''whisper.cpp''] ''build'') ''bin'') ''quantize'')"
  "node_at (files demo_adapted) [''out'', ''whisper-atc-q8_0.bin''] = None"
  by (simp_all add: demo_adapted_def demo_files_def path_exists_def node_at_def pjoin_def)

text \<open>
  C3. When the quantizer is there, each of the three subprocesses is started and exits
  (the second on the files the first leaves, the third on those the second leaves),
  exactly one of them with a status other than 0, and each level that exits with 0 has
  left something at its output path for \<^verbatim>\<open>stat()\<close> to measure, then
  \<^verbatim>\<open>quantize_model\<close> returns, in the order of the levels, an entry for each of the two
  levels that exited with 0, holding the path \<^verbatim>\<open>output_dir / "whisper-atc-<level>.bin"\<close>
  and the size rounded to tenths of a MiB, and none for the level that failed; all three
  subprocesses have been started, in order, so the levels after the failed one are
  attempted; the files are those the last subprocess left; and the failure is in the log.
\<close>

theorem quantize_one_level_fails:
  fixes r1 r2 r3 :: completed
  assumes bin: "path_exists (files w)
                  (pjoin (pjoin (pjoin whisper_cpp_dir ''build'') ''bin'') ''quantize'')"
    and s1: "spawn env (quantize_call whisper_cpp_dir ggml_path output_dir ''q8_0'') []
               (files w) = Inr (r1, f1)"
    and s2: "spawn env (quantize_call whisper_cpp_dir ggml_path output_dir ''q5_0'') []
               f1 = Inr (r2, f2)"
    and s3: "spawn env (quantize_call whisper_cpp_dir ggml_path output_dir ''q4_0'') []
               f2 = Inr (r3, f3)"
    and one: "length (filter (\<lambda>r. returncode r \<noteq> 0) [r1, r2, r3]) = 1"
    and st1: "returncode r1 = 0 \<longrightarrow>
              stat_size (dir_size env) (pjoin output_dir (quantized_name ''q8_0'')) f1 = Inr n1"
    and st2: "returncode r2 = 0 \<longrightarrow>
              stat_size (dir_size env) (pjoin output_dir (quantized_name ''q5_0'')) f2 = Inr n2"
    and st3: "returncode r3 = 0 \<longrightarrow>
              stat_size (dir_size env) (pjoin output_dir (quantized_name ''q4_0'')) f3 = Inr n3"
  shows "fst (quantize_model env ggml_path output_dir whisper_cpp_dir w) =
           Inr (map (\<lambda>(l, r, n). (l, \<lparr>art_path = pjoin output_dir (quantized_name l),
                                      size_mb = round_tenths n\<rparr>))
                  (filter (\<lambda>(l, r, n). returncode r = 0)
                     [(''q8_0'', r1, n1), (''q5_0'', r2, n2), (''q4_0'', r3, n3)]))
         \<and> length (filter (\<lambda>(l, r, n). returncode r = 0)
                     [(''q8_0'', r1, n1), (''q5_0'', r2, n2), (''q4_0'', r3, n3)]) = 2
         \<and> procs (snd (quantize_model env ggml_path output_dir whisper_cpp_dir w)) =
             procs w @
               [(quantize_call whisper_cpp_dir ggml_path output_dir ''q8_0'', []),
                (quantize_call whisper_cpp_dir ggml_path output_dir ''q5_0'', []),
                (quantize_call whisper_cpp_dir ggml_path output_dir ''q4_0'', [])]
         \<and> files (snd (quantize_model env ggml_path output_dir whisper_cpp_dir w)) = f3
         \<and> set (map (\<lambda>(l, r, n). (ERROR, [Lit ''Failed to quantize to '', Lit l]))
                  (filter (\<lambda>(l, r, n). returncode r \<noteq> 0)
                     [(''q8_0'', r1, n1), (''q5_0'', r2, n2), (''q4_0'', r3, n3)]))
             \<subseteq> set (logged (snd (quantize_model env ggml_path output_dir whisper_cpp_dir w)))"
proof -
  note run = quantize_run[OF bin s1 s2 s3 st1 st2 st3]
  have two: "length (filter (\<lambda>(l, r, n). returncode r = 0)
                     [(''q8_0'', r1, n1), (''q5_0'', r2, n2), (''q4_0'', r3, n3)]) = 2"
    using one
    by (cases "returncode r1 = 0"; cases "returncode r2 = 0"; cases "returncode r3 = 0")
       simp_all
  show ?thesis
    using run(1) two run(2) run(3) run(4) by (intro conjI)
qed

theorem quantize_one_level_fails_witness:
  "path_exists (files demo_adapted) [''whisper.cpp'', ''build'', ''bin'', ''quantize'']
   \<and> fst (quantize_model demo_env [''out'', ''whisper-atc.bin''] [''out''] [''whisper.cpp'']
            demo_adapted) =
       Inr [(''q8_0'', \<lparr>art_path = [''out'', ''whisper-atc-q8_0.bin''], size_mb = 15\<rparr>),
            (''q4_0'', \<lparr>art_path = [''out'', ''whisper-atc-q4_0.bin''], size_mb = 15\<rparr>)]
   \<and> procs (snd (quantize_model demo_env [''out'', ''whisper-atc.bin''] [''out'']
                    [''whisper.cpp''] demo_adapted)) =
       [([Path [''whisper.cpp'', ''build'', ''bin'', ''quantize''],
          Path [''out'', ''whisper-atc.bin''], Path [''out'', ''whisper-atc-q8_0.bin''],
          Lit ''q8_0''], []),
        ([Path [''whisper.cpp'', ''build'', ''bin'', ''quantize''],
          Path [''out'', ''whisper-atc.bin''], Path [''out'', ''whisper-atc-q5_0.bin''],
          Lit ''q5_0''], []),
        ([Path [''whisper.cpp'', ''build'', ''bin'', ''quantize''],
          Path [''out'', ''whisper-atc.bin''], Path [''out'', ''whisper-atc-q4_0.bin''],
          Lit ''q4_0''], [])]
   \<and> (ERROR, [Lit ''Failed to quantize to '', Lit ''q5_0''])
       \<in> set (logged (snd (quantize_model demo_env [''out'', ''whisper-atc.bin''] [''out'']
                              [''whisper.cpp''] demo_adapted)))"
proof -
  let ?g = "[''out'', ''whisper-atc.bin'']"
  let ?f1 = "AList.update (pjoin [''out''] (quantized_name ''q8_0'')) (File Opaque 1572864)
               (files demo_adapted)"
  let ?f3 = "AList.update (pjoin [''out''] (quantized_name ''q4_0'')) (File Opaque 1572864) ?f1"
  have s1: "spawn demo_env (quantize_call [''whisper.cpp''] ?g [''out''] ''q8_0'') []
              (files demo_adapted) = Inr (exited 0, ?f1)"
    by (simp add: demo_env_def demo_spawn_def quantize_call_def)
  have s2: "spawn demo_env (quantize_call [''whisper.cpp''] ?g [''out''] ''q5_0'') []
              ?f1 = Inr (exited 1, ?f1)"
    by (simp add: demo_env_def demo_spawn_def quantize_call_def)
  have s3: "spawn demo_env (quantize_call [''whisper.cpp''] ?g [''out''] ''q4_0'') []
              ?f1 = Inr (exited 0, ?f3)"
    by (simp add: demo_env_def demo_spawn_def quantize_call_def)
  have one: "length (filter (\<lambda>r. returncode r \<noteq> 0) [exited 0, exited 1, exited 0]) = 1"
    by (simp add: exited_def)
  have st1: "returncode (exited 0) = 0 \<longrightarrow>
      stat_size (dir_size demo_env) (pjoin [''out''] (quantized_name ''q8_0'')) ?f1 = Inr 1572864"
    by (simp add: stat_size_def node_at_update_same pjoin_not_Nil)
  have st2: "returncode (exited 1) = 0 \<longrightarrow>
      stat_size (dir_size demo_env) (pjoin [''out''] (quantized_name ''q5_0'')) ?f1 = Inr 0"
    by (simp add: exited_def)
  have st3: "returncode (exited 0) = 0 \<longrightarrow>
      stat_size (dir_size demo_env) (pjoin [''out''] (quantized_name ''q4_0'')) ?f3 = Inr 1572864"
    by (simp add: stat_size_def node_at_update_same pjoin_not_Nil)
  have bin: "path_exists (files demo_adapted) [''whisper.cpp'', ''build'', ''bin'', ''quantize'']"
    using demo_adapted_quantizer(1) by (simp add: pjoin_def)
  have rt: "round_tenths 1572864 = 15" by (simp add: round_tenths_def Let_def)
  have pr: "procs demo_adapted = []" by (simp add: demo_adapted_def)
  from quantize_one_level_fails[OF demo_adapted_quantizer(1) s1 s2 s3 one st1 st2 st3]
  show ?thesis
    using bin by (simp add: exited_def rt pr pjoin_def quantized_name_def quantize_call_def)
qed

theorem quantize_one_level_fails_counterexample:
  "map (\<lambda>(quant_type, description).
          spawn idle_env (quantize_call [''whisper.cpp''] [''out'', ''whisper-atc.bin'']
                            [''out''] quant_type) [] (files demo_adapted))
     quantizations =
     [Inr (exited 0, files demo_adapted), Inr (exited 1, files demo_adapted),
      Inr (exited 0, files demo_adapted)]
   \<and> path_exists (files demo_adapted) [''whisper.cpp'', ''build'', ''bin'', ''quantize'']
   \<and> fst (quantize_model idle_env [''out'', ''whisper-atc.bin''] [''out''] [''whisper.cpp'']
            demo_adapted) = Inl (FileNotFoundError [''out'', ''whisper-atc-q8_0.bin''])
   \<and> procs (snd (quantize_model idle_env [''out'', ''whisper-atc.bin''] [''out'']
                    [''whisper.cpp''] demo_adapted)) =
       [([Path [''whisper.cpp'', ''build'', ''bin'', ''quantize''],
          Path [''out'', ''whisper-atc.bin''], Path [''out'', ''whisper-atc-q8_0.bin''],
          Lit ''q8_0''], [])]"
proof -
  have sp: "map (\<lambda>(quant_type, description).
          spawn idle_env (quantize_call [''whisper.cpp''] [''out'', ''whisper-atc.bin'']
                            [''out''] quant_type) [] (files demo_adapted))
     quantizations =
     [Inr (exited 0, files demo_adapted), Inr (exited 1, files demo_adapted),
      Inr (exited 0, files demo_adapted)]"
    by (simp add: quantizations_def idle_env_def quantize_call_def)
  have bin: "path_exists (files demo_adapted) [''whisper.cpp'', ''build'', ''bin'', ''quantize'']"
    using demo_adapted_quantizer(1) by (simp add: pjoin_def)
  have pr: "procs demo_adapted = []" by (simp add: demo_adapted_def)
  have run: "quantize_model idle_env [''out'', ''whisper-atc.bin''] [''out''] [''whisper.cpp'']
            demo_adapted =
      (Inl (FileNotFoundError [''out'', ''whisper-atc-q8_0.bin'']),
       demo_adapted\<lparr>logged := logged demo_adapted @
           [(INFO, [Lit ''Quantizing to '', Lit ''q8_0'', Lit '' ('',
                    Lit ''Best quality quantized'', Lit '')...''])],
         procs := procs demo_adapted @
           [([Path [''whisper.cpp'', ''build'', ''bin'', ''quantize''],
              Path [''out'', ''whisper-atc.bin''], Path [''out'', ''whisper-atc-q8_0.bin''],
              Lit ''q8_0''], [])]\<rparr>)"
    using bin demo_adapted_quantizer(2)
    by (simp add: quantize_model_def quantizations_def io_defs Let_def idle_env_def
        exited_def stat_size_def pjoin_def quantized_name_def)
  show ?thesis using sp bin run pr by simp
qed

subsection \<open>The discovery of the converted file\<close>











subsection \<open>The steps of a run\<close>







































subsection \<open>The entry point\<close>

lemma main_mkdir_fails:
  assumes "mkdir_p (arg_output_dir a) (files w) = Inl e"
  shows "main env a w = (Inl e, w)"
  using assms by (simp add: main_def Let_def io_bind_def fs_op_def)

lemma main_early_return:
  assumes "mkdir_p (arg_output_dir a) (files w) = Inr f1"
    and "\<not> path_exists f1 (arg_model_path a)"
  shows "main env a w =
     (Inr (),
      w\<lparr>files := f1,
        logged := logged w @
          [(ERROR, [Lit ''Model path not found: '', Path (arg_model_path a)]),
           (INFO, [Lit ''Please run train_atc_model.py first''])]\<rparr>)"
  using assms
  by (simp add: main_def Let_def io_bind_def fs_op_def io_exists_def logger_error_def
      logger_info_def)

text \<open>
  C7, as the code has it. The output directory is made first and the model path is
  looked up afterwards. When making the directory succeeds and the model path does not
  exist then, \<open>main\<close> logs the two lines and returns normally: no subprocess is
  started, and nothing but the output directory is added to the files.
\<close>

theorem main_missing_model_path:
  assumes "mkdir_p (arg_output_dir a) (files w) = Inr f1"
    and "\<not> path_exists f1 (arg_model_path a)"
  shows "main env a w =
     (Inr (),
      \<lparr>files = f1,
       logged = logged w @
          [(ERROR, [Lit ''Model path not found: '', Path (arg_model_path a)]),
           (INFO, [Lit ''Please run train_atc_model.py first''])],
       procs = procs w\<rparr>)"
  using main_early_return[OF assms, of env] by simp

theorem main_missing_model_path_witness:
  "main demo_env
     \<lparr>arg_model_path = [''final''], arg_output_dir = [''out''], arg_skip_quantization = False\<rparr>
     empty_world =
     (Inr (),
      \<lparr>files = [([''out''], Dir)],
       logged =
          [(ERROR, [Lit ''Model path not found: '', Path [''final'']]),
           (INFO, [Lit ''Please run train_atc_model.py first''])],
       procs = []\<rparr>)"
  using main_missing_model_path
    [of "\<lparr>arg_model_path = [''final''], arg_output_dir = [''out''],
          arg_skip_quantization = False\<rparr>" empty_world "[([''out''], Dir)]" demo_env]
  by (simp add: empty_world_def mkdir_p_def node_at_def path_exists_def)

text \<open>
  The claim as stated fails on two command lines. With the model path equal to the
  output directory, a path that does not exist when the script starts exists by the time
  it is looked up, and the run goes on to clone the toolchain. With an output directory
  that is an existing file, \<^verbatim>\<open>mkdir\<close> raises and nothing catches it.
\<close>

theorem main_missing_model_path_counterexample:
  "\<not> path_exists (files empty_world) [''out'']
   \<and> procs (snd (main demo_env
        \<lparr>arg_model_path = [''out''], arg_output_dir = [''out''], arg_skip_quantization = False\<rparr>
        empty_world)) =
       [([Lit ''git'', Lit ''clone'', Lit ''https://github.com/ggerganov/whisper.cpp.git''], [])]
   \<and> \<not> path_exists [([''out''], File Opaque 1)] [''final'']
   \<and> fst (main demo_env
        \<lparr>arg_model_path = [''final''], arg_output_dir = [''out''], arg_skip_quantization = False\<rparr>
        \<lparr>files = [([''out''], File Opaque 1)], logged = [], procs = []\<rparr>) =
       Inl (FileExistsError [''out''])"
proof -
  have "procs (snd (main demo_env
        \<lparr>arg_model_path = [''out''], arg_output_dir = [''out''], arg_skip_quantization = False\<rparr>
        empty_world)) =
       [([Lit ''git'', Lit ''clone'', Lit ''https://github.com/ggerganov/whisper.cpp.git''], [])]"
    by (simp add: main_def Let_def io_defs download_whisper_cpp_def empty_world_def
        mkdir_p_def node_at_def path_exists_def demo_env_def demo_spawn_def exited_def)
  moreover have "fst (main demo_env
        \<lparr>arg_model_path = [''final''], arg_output_dir = [''out''], arg_skip_quantization = False\<rparr>
        \<lparr>files = [([''out''], File Opaque 1)], logged = [], procs = []\<rparr>) =
       Inl (FileExistsError [''out''])"
    by (simp add: main_mkdir_fails mkdir_p_def node_at_def)
  ultimately show ?thesis
    by (simp add: path_exists_def node_at_def empty_world_def)
qed

lemma node_at_extends:
  "node_at f q = Some n \<Longrightarrow> node_at (f @ map (\<lambda>p. (p, Dir)) ds) q = Some n"
  by (auto simp: node_at_def map_add_def split: option.splits)

lemma mk_from_keeps: "mk_from t base cs f = Inr f' \<Longrightarrow> node_at f q = Some n \<Longrightarrow> node_at f' q = Some n"
  using mk_from_extends node_at_extends by blast

lemma mk_from_prefix_dir:
  "node_at f base = Some Dir \<Longrightarrow> mk_from t base cs f = Inr f' \<Longrightarrow>
   node_at f' (base @ take k cs) = Some Dir"
proof (induction cs arbitrary: base f k)
  case Nil
  then show ?case by simp
next
  case (Cons c cs)
  show ?case
  proof (cases k)
    case 0
    have "node_at f' base = Some Dir"
      using Cons.prems(2) Cons.prems(1) by (rule mk_from_keeps)
    then show ?thesis using 0 by simp
  next
    case (Suc j)
    show ?thesis
    proof (cases "node_at f (base @ [c])")
      case None
      with Cons.prems have m: "mk_from t (base @ [c]) cs (f @ [(base @ [c], Dir)]) = Inr f'"
        by simp
      have "node_at (f @ [(base @ [c], Dir)]) (base @ [c]) = Some Dir"
        using None by (simp add: node_at_append_dir)
      from Cons.IH[OF this m, of j] show ?thesis using Suc by simp
    next
      case (Some n)
      show ?thesis
      proof (cases n)
        case Dir
        with Some Cons.prems have m: "mk_from t (base @ [c]) cs f = Inr f'" by simp
        from Some Dir have "node_at f (base @ [c]) = Some Dir" by simp
        from Cons.IH[OF this m, of j] show ?thesis using Suc by simp
      next
        case (File d i)
        with Some Cons.prems show ?thesis by simp
      qed
    qed
  qed
qed

lemma mkdir_p_prefix_dir:
  assumes "mkdir_p p f = Inr f'" and "prefix q p"
  shows "node_at f' q = Some Dir"
proof -
  from assms(2) obtain r where p: "p = q @ r" by (auto simp: prefix_def)
  have "node_at f' ([] @ take (length q) p) = Some Dir"
    by (rule mk_from_prefix_dir[where f = f and t = p])
       (use assms(1) in \<open>simp_all add: node_at_def mkdir_p_def\<close>)
  then show ?thesis using p by simp
qed

lemma main_found:
  assumes "mkdir_p (arg_output_dir a) (files w) = Inr f1"
    and "path_exists f1 (arg_model_path a)"
  shows "main env a w = main_pipeline env a (w\<lparr>files := f1\<rparr>)"
  using assms
  by (simp add: main_def main_pipeline_def Let_def io_bind_def fs_op_def io_exists_def)

text \<open>
  C8, as the code has it. When making the output directory succeeds, the directory is
  there (with every parent), nothing that was there is lost, and the model path is looked
  up in the files as they are after that: a model path that the directory's creation
  itself brought about (the output directory or one of its parents) is found, and
  \<open>main\<close> goes on with the pipeline; a model path still missing ends the run with the
  two log lines, the created directory staying on disk.
\<close>

theorem main_makes_output_dir_first:
  assumes "mkdir_p (arg_output_dir a) (files w) = Inr f1"
  shows "node_at f1 (arg_output_dir a) = Some Dir
     \<and> (\<exists>ds. f1 = files w @ map (\<lambda>p. (p, Dir)) ds)
     \<and> (prefix (arg_model_path a) (arg_output_dir a) \<longrightarrow> path_exists f1 (arg_model_path a))
     \<and> main env a w =
         (if path_exists f1 (arg_model_path a)
          then main_pipeline env a (w\<lparr>files := f1\<rparr>)
          else (Inr (),
                w\<lparr>files := f1,
                  logged := logged w @
                    [(ERROR, [Lit ''Model path not found: '', Path (arg_model_path a)]),
                     (INFO, [Lit ''Please run train_atc_model.py first''])]\<rparr>))"
proof (intro conjI impI)
  show "node_at f1 (arg_output_dir a) = Some Dir" using assms by (rule mkdir_p_dir)
  show "\<exists>ds. f1 = files w @ map (\<lambda>p. (p, Dir)) ds" using assms by (rule mkdir_p_extends)
  show "path_exists f1 (arg_model_path a)" if "prefix (arg_model_path a) (arg_output_dir a)"
    using mkdir_p_prefix_dir[OF assms that] by (simp add: path_exists_def)
  show "main env a w =
         (if path_exists f1 (arg_model_path a)
          then main_pipeline env a (w\<lparr>files := f1\<rparr>)
          else (Inr (),
                w\<lparr>files := f1,
                  logged := logged w @
                    [(ERROR, [Lit ''Model path not found: '', Path (arg_model_path a)]),
                     (INFO, [Lit ''Please run train_atc_model.py first''])]\<rparr>))"
    using main_found[OF assms] main_early_return[OF assms] by simp
qed

theorem main_makes_output_dir_first_witness:
  "node_at [([''out''], Dir), ([''out'', ''quantized''], Dir)] [''out'', ''quantized''] = Some Dir
   \<and> path_exists [([''out''], Dir), ([''out'', ''quantized''], Dir)] [''out'']
   \<and> main demo_env
        \<lparr>arg_model_path = [''out''], arg_output_dir = [''out'', ''quantized''],
         arg_skip_quantization = False\<rparr> empty_world =
      main_pipeline demo_env
        \<lparr>arg_model_path = [''out''], arg_output_dir = [''out'', ''quantized''],
         arg_skip_quantization = False\<rparr>
        \<lparr>files = [([''out''], Dir), ([''out'', ''quantized''], Dir)], logged = [], procs = []\<rparr>
   \<and> main demo_env
        \<lparr>arg_model_path = [''final''], arg_output_dir = [''out'', ''quantized''],
         arg_skip_quantization = False\<rparr> empty_world =
      (Inr (),
       \<lparr>files = [([''out''], Dir), ([''out'', ''quantized''], Dir)],
        logged = [(ERROR, [Lit ''Model path not found: '', Path [''final'']]),
                  (INFO, [Lit ''Please run train_atc_model.py first''])],
        procs = []\<rparr>)"
proof -
  have mk: "mkdir_p [''out'', ''quantized''] (files empty_world) =
     Inr [([''out''], Dir), ([''out'', ''quantized''], Dir)]"
    by (simp add: empty_world_def mkdir_p_def node_at_def)
  have p: "path_exists [([''out''], Dir), ([''out'', ''quantized''], Dir)] [''out'']"
    and n: "\<not> path_exists [([''out''], Dir), ([''out'', ''quantized''], Dir)] [''final'']"
    by (simp_all add: path_exists_def node_at_def)
  show ?thesis
    using main_makes_output_dir_first
      [of "\<lparr>arg_model_path = [''out''], arg_output_dir = [''out'', ''quantized''],
            arg_skip_quantization = False\<rparr>" empty_world
          "[([''out''], Dir), ([''out'', ''quantized''], Dir)]" demo_env]
      main_makes_output_dir_first
      [of "\<lparr>arg_model_path = [''final''], arg_output_dir = [''out'', ''quantized''],
            arg_skip_quantization = False\<rparr>" empty_world
          "[([''out''], Dir), ([''out'', ''quantized''], Dir)]" demo_env]
      mk p n
    by (simp add: empty_world_def)
qed

text \<open>
  The claim as stated, for every invocation, fails when the output directory cannot be
  made: with a file where the directory should be, \<^verbatim>\<open>mkdir\<close> raises, \<open>main\<close> raises
  the same, and no directory has been created.
\<close>

theorem main_makes_output_dir_first_counterexample:
  "mkdir_p [''out''] [([''out''], File Opaque 1)] = Inl (FileExistsError [''out''])
   \<and> main demo_env
        \<lparr>arg_model_path = [''final''], arg_output_dir = [''out''], arg_skip_quantization = False\<rparr>
        \<lparr>files = [([''out''], File Opaque 1)], logged = [], procs = []\<rparr> =
      (Inl (FileExistsError [''out'']),
       \<lparr>files = [([''out''], File Opaque 1)], logged = [], procs = []\<rparr>)
   \<and> node_at [([''out''], File Opaque 1)] [''out''] \<noteq> Some Dir"
proof -
  have mk: "mkdir_p [''out''] [([''out''], File Opaque 1)] = Inl (FileExistsError [''out''])"
    by (simp add: mkdir_p_def node_at_def)
  then show ?thesis
    by (simp add: main_mkdir_fails node_at_def)
qed


end
